theory Spec2Isabelle
  imports Complex_Main
begin

section \<open>Data model of the AWS manager (src/provisioner/aws-manager.js)\<close>

text \<open>
  Dates are the milliseconds since the epoch that \<open>Date.getTime()\<close> yields; the
  source's \<open>new Date()\<close> is the parameter \<open>now\<close> of each function that reads the
  clock. The records below hold the fields the manager reads, typed as the EC2
  responses carry them: the launch time of an instance and the update time of a
  request's status are dates, so \<open>dateForInflux\<close>, which throws on anything but a
  date or a string, always returns; the nested objects \<open>State\<close>, \<open>Placement\<close>,
  \<open>Status\<close> and \<open>LaunchSpecification\<close> are always present and are flattened into
  fields named after their path.
\<close>

type_synonym time = int

text \<open>
  A JavaScript number as \<open>parseFloat\<close> yields it from a spot price string: either
  \<open>NaN\<close> or a finite number. \<open>truthy\<close> is JavaScript's truth test on it where the
  value may also be \<open>undefined\<close> (\<open>None\<close>).
\<close>

datatype jsnum = NaN | Num rat

fun truthy :: "jsnum option \<Rightarrow> bool" where
  "truthy None = False"
| "truthy (Some NaN) = False"
| "truthy (Some (Num x)) = (x \<noteq> 0)"

text \<open>
  \<open>_classify\<close> writes \<open>Region\<close> and \<open>WorkerType\<close> onto every instance and every spot
  request of the EC2 responses; both kinds of object share these two fields.
\<close>

record classified =
  Region :: string
  WorkerType :: string

record stateReason =
  Code :: string
  Message :: string

text \<open>
  An instance as \<open>describeInstances\<close> returns it. \<open>iSpotInstanceRequestId\<close> is the
  instance's \<open>SpotInstanceRequestId\<close> (absent on an instance that no spot request
  started), \<open>State_Name\<close> is \<open>State.Name\<close> and \<open>Placement_AvailabilityZone\<close> is
  \<open>Placement.AvailabilityZone\<close>.
\<close>

record ec2Instance = classified +
  InstanceId :: string
  InstanceType :: string
  State_Name :: string
  LaunchTime :: time
  Placement_AvailabilityZone :: string
  iSpotInstanceRequestId :: "string option"
  StateReason :: "stateReason option"

text \<open>
  A spot request as \<open>describeSpotInstanceRequests\<close> returns it. The instance type of a
  request is \<open>LaunchSpecification.InstanceType\<close>; \<open>rInstanceType\<close> is the top-level
  property \<open>InstanceType\<close> that \<open>capacityForType\<close> reads, which no EC2 spot request
  carries (\<open>None\<close> is JavaScript's \<open>undefined\<close>). \<open>SpotPrice\<close> holds the number
  \<open>parseFloat(request.SpotPrice, 10)\<close>, the only way the source reads the field.
\<close>

record spotRequest = classified +
  SpotInstanceRequestId :: string
  rInstanceType :: "string option"
  LaunchSpecification_InstanceType :: string
  LaunchSpecification_AvailabilityZone :: string
  CreateTime :: time
  State :: string
  Status_Code :: string
  Status_Message :: string
  Status_UpdateTime :: time
  SpotPrice :: jsnum
  rInstanceId :: "string option"

record apiSnapshot =
  instances :: "ec2Instance list"
  requests :: "spotRequest list"

record bidInfo =
  bid_region :: string
  bid_zone :: string
  bid_type :: string

text \<open>
  The record \<open>requestSpotInstance\<close> builds for a submitted bid
  (\<open>{workerType, request, bid, submitted}\<close>) and hands to \<open>_trackNewSpotRequest\<close>.
\<close>

record spotBid =
  info_workerType :: string
  request :: spotRequest
  bid :: bidInfo
  submitted :: time

text \<open>
  An entry of \<open>__awaitingStateReason\<close> or \<open>__awaitingSpotFulfilmentStatus\<close>:
  \<open>{id, time, iterationCount}\<close>.
\<close>

record awaiting =
  aid :: string
  atime :: time
  iterationCount :: int

record awsManager =
  regions :: "string list"
  keyPrefix :: string
  provisionerId :: string
  knownKeyPairs :: "string list"
  apiState :: apiSnapshot
  previousApiState :: apiSnapshot
  deadState :: apiSnapshot
  internalState :: "spotBid list"
  awaitingStateReason :: "awaiting list"
  awaitingSpotFulfilmentStatus :: "awaiting list"

text \<open>The points handed to the influx reporters, one constructor per reporter.\<close>

datatype event =
    Ec2ApiLag string string string nat rat
      \<comment> \<open>id, region, workerType, didShow, lag in seconds\<close>
  | SpotRequestsFulfilled string string string "string option" time
      \<comment> \<open>id, region, workerType, instanceId, time\<close>
  | SpotRequestsDied string string string jsnum string string
      \<comment> \<open>id, region, workerType, bid, state, statusCode\<close>
  | InstanceTerminated string string "string option" time string
      \<comment> \<open>id, region, spotRequestId, time, stateChangeCode\<close>
  | SpotPriceFloorFound string string string jsnum string
      \<comment> \<open>region, az, instanceType, price, reason\<close>

section \<open>The in-flight tracker\<close>

text \<open>
  \<open>knownSpotInstanceRequestIds\<close>: the ids of the requests of \<open>__apiState\<close>, then, for
  each instance in order, its \<open>SpotInstanceRequestId\<close> when that is truthy (present
  and not the empty string) and not yet in the list.
\<close>

fun addInstanceSrId :: "string list \<Rightarrow> ec2Instance \<Rightarrow> string list" where
  "addInstanceSrId allKnownSrIds i =
     (case iSpotInstanceRequestId i of
        None \<Rightarrow> allKnownSrIds
      | Some sird \<Rightarrow>
          if sird \<noteq> [] \<and> sird \<notin> set allKnownSrIds
          then allKnownSrIds @ [sird] else allKnownSrIds)"

definition knownSpotInstanceRequestIds :: "awsManager \<Rightarrow> string list" where
  "knownSpotInstanceRequestIds m =
     foldl addInstanceSrId
       (map SpotInstanceRequestId (requests (apiState m)))
       (instances (apiState m))"

text \<open>
  \<open>_trackNewSpotRequest\<close>: when the request id is not known to the API state, the
  record gets \<open>request.Region\<close> and \<open>request.WorkerType\<close> written and is pushed onto
  \<open>__internalState\<close>.
\<close>

definition tagRequest :: "spotBid \<Rightarrow> spotBid" where
  "tagRequest sr =
     sr\<lparr>request := (request sr)\<lparr>Region := bid_region (bid sr),
                                  WorkerType := info_workerType sr\<rparr>\<rparr>"

definition trackNewSpotRequest :: "awsManager \<Rightarrow> spotBid \<Rightarrow> awsManager" where
  "trackNewSpotRequest m sr =
     (if SpotInstanceRequestId (request sr) \<notin> set (knownSpotInstanceRequestIds m)
      then m\<lparr>internalState := internalState m @ [tagRequest sr]\<rparr>
      else m)"

text \<open>
  \<open>_reconcileInternalState\<close>: the filter over \<open>__internalState\<close>. An entry whose id
  is known is reported with \<open>didShow: 0\<close> and dropped; one that is 15 minutes old or
  more is reported with \<open>didShow: 1\<close> and dropped; every other entry is kept.
\<close>

definition lagOf :: "time \<Rightarrow> spotBid \<Rightarrow> rat" where
  "lagOf now sr = of_int (now - submitted sr) / 1000"

definition lagEvent :: "time \<Rightarrow> nat \<Rightarrow> spotBid \<Rightarrow> event" where
  "lagEvent now didShow sr =
     Ec2ApiLag (SpotInstanceRequestId (request sr)) (Region (request sr))
       (WorkerType (request sr)) didShow (lagOf now sr)"

definition keepInFlight :: "string list \<Rightarrow> time \<Rightarrow> spotBid \<Rightarrow> bool" where
  "keepInFlight allKnownSrIds now sr =
     (if SpotInstanceRequestId (request sr) \<in> set allKnownSrIds then False
      else if now - submitted sr \<ge> 15 * 60 * 1000 then False
      else True)"

definition inFlightEvents :: "string list \<Rightarrow> time \<Rightarrow> spotBid \<Rightarrow> event list" where
  "inFlightEvents allKnownSrIds now sr =
     (if SpotInstanceRequestId (request sr) \<in> set allKnownSrIds then [lagEvent now 0 sr]
      else if now - submitted sr \<ge> 15 * 60 * 1000 then [lagEvent now 1 sr]
      else [])"

definition reconcileInternalState :: "time \<Rightarrow> awsManager \<Rightarrow> event list \<times> awsManager" where
  "reconcileInternalState now m =
     (let allKnownSrIds = knownSpotInstanceRequestIds m in
      (concat (map (inFlightEvents allKnownSrIds now) (internalState m)),
       m\<lparr>internalState := filter (keepInFlight allKnownSrIds now) (internalState m)\<rparr>))"

section \<open>Worker types and capacity accounting\<close>

text \<open>
  The worker-type definition handed to \<open>capacityForType\<close> and
  \<open>killCapacityOfWorkerType\<close>. Its class is defined in worker-type.js, outside
  aws-manager.js, so its method \<open>capacityOfType\<close> is a field here: the capacity of
  an instance type, \<open>None\<close> when the call throws (the type is unknown to the worker
  type). The argument is \<open>None\<close> when the source passes \<open>undefined\<close>.
  \<open>instanceTypes\<close> holds the \<open>instanceType\<close> name of each entry of
  \<open>workerType.instanceTypes\<close>.
\<close>

record workerTypeDef =
  workerType :: string
  minCapacity :: int
  instanceTypes :: "string list"
  capacityOfType :: "string option \<Rightarrow> int option"

definition defaultStates :: "string list" where
  "defaultStates = [''running'', ''pending'', ''spotReq'']"

text \<open>\<open>if (!states) { states = [...] }\<close>: an omitted argument takes the default.\<close>

definition statesOrDefault :: "string list option \<Rightarrow> string list" where
  "statesOrDefault states = (case states of None \<Rightarrow> defaultStates | Some s \<Rightarrow> s)"

definition instancesOfType :: "awsManager \<Rightarrow> string \<Rightarrow> ec2Instance list" where
  "instancesOfType m name = filter (\<lambda>i. WorkerType i = name) (instances (apiState m))"

definition requestsOfType :: "awsManager \<Rightarrow> string \<Rightarrow> spotRequest list" where
  "requestsOfType m name = filter (\<lambda>r. WorkerType r = name) (requests (apiState m))"

text \<open>
  \<open>try { capacity += workerType.capacityOfType(t); } catch (err) { capacity++; }\<close>
\<close>

definition addCapacity :: "workerTypeDef \<Rightarrow> string option \<Rightarrow> int \<Rightarrow> int" where
  "addCapacity wt t capacity =
     (case capacityOfType wt t of Some c \<Rightarrow> capacity + c | None \<Rightarrow> capacity + 1)"

definition capacityForType :: "awsManager \<Rightarrow> workerTypeDef \<Rightarrow> string list option \<Rightarrow> int" where
  "capacityForType m wt statesArg =
     (let states = statesOrDefault statesArg;
          capacity0 = foldl (\<lambda>capacity i.
              if State_Name i \<in> set states
              then addCapacity wt (Some (InstanceType i)) capacity else capacity)
            0 (instancesOfType m (workerType wt));
          capacity1 = foldl (\<lambda>capacity r.
              if ''spotReq'' \<in> set states
              then addCapacity wt (rInstanceType r) capacity else capacity)
            capacity0 (requestsOfType m (workerType wt))
      in foldl (\<lambda>capacity sr.
              if ''spotReq'' \<in> set states
              then addCapacity wt (rInstanceType (request sr)) capacity else capacity)
            capacity1 (internalState m))"

text \<open>
  The capacity as the specification words it, for comparison with the source's: the
  instances of the worker type in a state of \<open>S\<close>, the open requests of the worker
  type when \<open>S\<close> holds \<open>spotReq\<close>, and the in-flight entries of the worker type, each
  at the capacity of its own instance type, 1 when that is unknown.
\<close>

definition capacityOrOne :: "workerTypeDef \<Rightarrow> string option \<Rightarrow> int" where
  "capacityOrOne wt t = (case capacityOfType wt t of Some c \<Rightarrow> c | None \<Rightarrow> 1)"

definition capacityForType_spec :: "awsManager \<Rightarrow> workerTypeDef \<Rightarrow> string list \<Rightarrow> int" where
  "capacityForType_spec m wt S =
     sum_list (map (\<lambda>i. capacityOrOne wt (Some (InstanceType i)))
        (filter (\<lambda>i. State_Name i \<in> set S) (instancesOfType m (workerType wt))))
     + (if ''spotReq'' \<in> set S
        then sum_list (map (\<lambda>r. capacityOrOne wt (Some (LaunchSpecification_InstanceType r)))
               (requestsOfType m (workerType wt)))
        else 0)
     + sum_list (map (\<lambda>sr. capacityOrOne wt (Some (LaunchSpecification_InstanceType (request sr))))
         (filter (\<lambda>sr. WorkerType (request sr) = workerType wt) (internalState m)))"

text \<open>\<open>knownWorkerTypes\<close>: each worker type of the state once, in order of first sight.\<close>

definition pushIfNew :: "string list \<Rightarrow> string \<Rightarrow> string list" where
  "pushIfNew workerTypes w = (if w \<in> set workerTypes then workerTypes else workerTypes @ [w])"

definition knownWorkerTypes :: "awsManager \<Rightarrow> string list" where
  "knownWorkerTypes m =
     foldl pushIfNew
       (foldl pushIfNew
          (foldl pushIfNew [] (map WorkerType (instances (apiState m))))
          (map WorkerType (requests (apiState m))))
       (map (\<lambda>sr. WorkerType (request sr)) (internalState m))"

section \<open>The cloud adapter\<close>

text \<open>
  Modelled from the spec: the cloud adapter (the \<open>ec2\<close> object handed to the
  constructor) is defined outside aws-manager.js. The spec describes it as a thin,
  region-parameterized wrapper over the EC2 calls. Here the cloud is the key pairs
  that exist per region, the regions whose calls currently fail, and the log of the
  calls issued. A call in a failing region rejects and changes nothing; any other
  call resolves.
\<close>

datatype call =
    DescribeKeyPairs "string list" string
      \<comment> \<open>regions, key name\<close>
  | ImportKeyPair string string
      \<comment> \<open>region, key name\<close>
  | DeleteKeyPair string string
      \<comment> \<open>region, key name\<close>
  | TerminateInstances string "string list"
      \<comment> \<open>region, instance ids\<close>
  | CancelSpotInstanceRequests string "string list"
      \<comment> \<open>region, spot request ids\<close>

record cloud =
  keyPairs :: "(string \<times> string) list"
  failing :: "string list"
  issued :: "call list"

fun callRegions :: "call \<Rightarrow> string list" where
  "callRegions (DescribeKeyPairs rs k) = rs"
| "callRegions (ImportKeyPair r k) = [r]"
| "callRegions (DeleteKeyPair r k) = [r]"
| "callRegions (TerminateInstances r ids) = [r]"
| "callRegions (CancelSpotInstanceRequests r ids) = [r]"

definition rejects :: "cloud \<Rightarrow> call \<Rightarrow> bool" where
  "rejects c x = list_ex (\<lambda>r. r \<in> set (failing c)) (callRegions x)"

fun effect :: "call \<Rightarrow> cloud \<Rightarrow> cloud" where
  "effect (ImportKeyPair r k) c =
     (if (r, k) \<in> set (keyPairs c) then c else c\<lparr>keyPairs := keyPairs c @ [(r, k)]\<rparr>)"
| "effect (DeleteKeyPair r k) c = c\<lparr>keyPairs := filter (\<lambda>p. p \<noteq> (r, k)) (keyPairs c)\<rparr>"
| "effect x c = c"

definition perform :: "cloud \<Rightarrow> call \<Rightarrow> cloud" where
  "perform c x =
     (let c' = c\<lparr>issued := issued c @ [x]\<rparr>
      in if rejects c x then c' else effect x c')"

text \<open>
  \<open>Promise.all\<close> over calls that were all started: every call is issued, and the
  whole rejects when one of them does.
\<close>

definition performAll :: "cloud \<Rightarrow> call list \<Rightarrow> bool \<times> cloud" where
  "performAll c xs = (list_ex (rejects c) xs, foldl perform c xs)"

text \<open>
  How a call of a manager method ends: it throws before returning its promise, or
  the promise rejects, or it resolves.
\<close>

datatype error = AssertionError | TypeError | UnknownInstanceType

datatype outcome = Threw error | Rejected | Resolved

section \<open>Key pairs\<close>

text \<open>
  \<open>createKeyPair\<close>: \<open>assert(workerName)\<close> throws on the empty name; a name in
  \<open>__knownKeyPairs\<close> resolves at once; otherwise \<open>describeKeyPairs\<close> over the
  regions, an \<open>importKeyPair\<close> in each region whose answer holds no key, and when
  all have resolved the name is pushed onto the cache.
\<close>

definition createKeyPair :: "awsManager \<Rightarrow> cloud \<Rightarrow> string \<Rightarrow> outcome \<times> awsManager \<times> cloud" where
  "createKeyPair m c workerName =
     (if workerName = [] then (Threw AssertionError, m, c)
      else if workerName \<in> set (knownKeyPairs m) then (Resolved, m, c)
      else
        let keyName = keyPrefix m @ workerName;
            describe = DescribeKeyPairs (regions m) keyName;
            c1 = perform c describe
        in if rejects c describe then (Rejected, m, c1)
           else
             let toCreate = map (\<lambda>region. ImportKeyPair region keyName)
                   (filter (\<lambda>region. (region, keyName) \<notin> set (keyPairs c)) (regions m));
                 (rejected, c2) = performAll c1 toCreate
             in if rejected then (Rejected, m, c2)
                else (Resolved, m\<lparr>knownKeyPairs := knownKeyPairs m @ [workerName]\<rparr>, c2))"

text \<open>
  \<open>deleteKeyPair\<close>: \<open>describeKeyPairs\<close>, a \<open>deleteKeyPair\<close> call in each region
  whose answer holds the key, and when all have resolved the name is filtered out of
  the cache.
\<close>

definition deleteKeyPair :: "awsManager \<Rightarrow> cloud \<Rightarrow> string \<Rightarrow> outcome \<times> awsManager \<times> cloud" where
  "deleteKeyPair m c workerName =
     (if workerName = [] then (Threw AssertionError, m, c)
      else
        let keyName = keyPrefix m @ workerName;
            describe = DescribeKeyPairs (regions m) keyName;
            c1 = perform c describe
        in if rejects c describe then (Rejected, m, c1)
           else
             let toDelete = map (\<lambda>region. DeleteKeyPair region keyName)
                   (filter (\<lambda>region. (region, keyName) \<in> set (keyPairs c)) (regions m));
                 (rejected, c2) = performAll c1 toDelete
             in if rejected then (Rejected, m, c2)
                else (Resolved,
                      m\<lparr>knownKeyPairs :=
                          filter (\<lambda>knownKeyPair. knownKeyPair \<noteq> workerName) (knownKeyPairs m)\<rparr>,
                      c2))"

section \<open>Killing instances and cancelling requests\<close>

text \<open>
  \<open>killCancel\<close>: one \<open>terminateInstances\<close> call when there are instance ids, one
  \<open>cancelSpotInstanceRequests\<close> call when there are request ids.
\<close>

definition killCancelCalls :: "string \<Rightarrow> string list \<Rightarrow> string list \<Rightarrow> call list" where
  "killCancelCalls region i r =
     (if length i > 0 then [TerminateInstances region i] else []) @
     (if length r > 0 then [CancelSpotInstanceRequests region r] else [])"

definition killCancel :: "cloud \<Rightarrow> string \<Rightarrow> string list \<Rightarrow> string list \<Rightarrow> bool \<times> cloud" where
  "killCancel c region i r = performAll c (killCancelCalls region i r)"

text \<open>
  The per-region store \<open>{region: {instances: [], requests: []}}\<close> that \<open>killByName\<close>
  and \<open>killCapacityOfWorkerType\<close> fill: an object keyed by the regions of the adapter,
  its keys in order of first insertion.
\<close>

type_synonym kills = "(string \<times> string list \<times> string list) list"

definition emptyKills :: "string list \<Rightarrow> kills" where
  "emptyKills rs = map (\<lambda>region. (region, [], [])) (rev (remdups (rev rs)))"

text \<open>
  \<open>perRegionKills[region].instances.push(id)\<close> and the same for requests: a region
  that is no key of the store reads as \<open>undefined\<close>, and the property access throws.
\<close>

definition pushInstanceId :: "kills \<Rightarrow> string \<Rightarrow> string \<Rightarrow> error + kills" where
  "pushInstanceId ks region ident =
     (if region \<in> fst ` set ks
      then Inr (map (\<lambda>(r, i, q). if r = region then (r, i @ [ident], q) else (r, i, q)) ks)
      else Inl TypeError)"

definition pushRequestId :: "kills \<Rightarrow> string \<Rightarrow> string \<Rightarrow> error + kills" where
  "pushRequestId ks region ident =
     (if region \<in> fst ` set ks
      then Inr (map (\<lambda>(r, i, q). if r = region then (r, i, q @ [ident]) else (r, i, q)) ks)
      else Inl TypeError)"

text \<open>\<open>forEach\<close> with a body that may throw: the first exception ends the loop.\<close>

fun forEachE :: "('s \<Rightarrow> 'a \<Rightarrow> error + 's) \<Rightarrow> 'a list \<Rightarrow> 's \<Rightarrow> error + 's" where
  "forEachE f [] s = Inr s"
| "forEachE f (x # xs) s = (case f s x of Inl e \<Rightarrow> Inl e | Inr s' \<Rightarrow> forEachE f xs s')"

definition killInstanceStep :: "string \<Rightarrow> string list \<Rightarrow> kills \<Rightarrow> ec2Instance \<Rightarrow> error + kills" where
  "killInstanceStep name states ks i =
     (if WorkerType i = name \<and> State_Name i \<in> set states
      then pushInstanceId ks (Region i) (InstanceId i) else Inr ks)"

definition killRequestStep :: "string \<Rightarrow> string list \<Rightarrow> kills \<Rightarrow> spotRequest \<Rightarrow> error + kills" where
  "killRequestStep name states ks r =
     (if WorkerType r = name \<and> ''spotReq'' \<in> set states
      then pushRequestId ks (Region r) (SpotInstanceRequestId r) else Inr ks)"

definition killsByName :: "awsManager \<Rightarrow> string \<Rightarrow> string list \<Rightarrow> error + kills" where
  "killsByName m name states =
     (case forEachE (killInstanceStep name states) (instances (apiState m))
             (emptyKills (regions m)) of
        Inl e \<Rightarrow> Inl e
      | Inr k1 \<Rightarrow>
          (case forEachE (killRequestStep name states) (requests (apiState m)) k1 of
             Inl e \<Rightarrow> Inl e
           | Inr k2 \<Rightarrow>
               forEachE (killRequestStep name states) (map request (internalState m)) k2))"

text \<open>
  The calls of \<open>killCancel(region, i, r)\<close> over the keys of the store, in order.
\<close>

definition killCalls :: "kills \<Rightarrow> call list" where
  "killCalls perRegionKills =
     concat (map (\<lambda>(region, i, r). killCancelCalls region i r) perRegionKills)"

definition killByName :: "awsManager \<Rightarrow> cloud \<Rightarrow> string \<Rightarrow> string list option \<Rightarrow> outcome \<times> cloud" where
  "killByName m c name statesArg =
     (case killsByName m name (statesOrDefault statesArg) of
        Inl e \<Rightarrow> (Threw e, c)
      | Inr perRegionKills \<Rightarrow>
          (let (rejected, c') = performAll c (killCalls perRegionKills)
           in (if rejected then Rejected else Resolved, c')))"

text \<open>
  \<open>rougeKiller\<close>: for each worker type of the state that is not configured, start
  \<open>deleteKeyPair\<close> and \<open>killByName\<close>. An exception thrown by either call ends the
  loop and leaves \<open>rougeKiller\<close> itself thrown; a rejection only makes the final
  \<open>Promise.all\<close> reject. The promises run concurrently in the source; the model
  settles each before the next starts, so the order of the log across worker types is
  the model's own.
\<close>

fun rougeLoop :: "string list \<Rightarrow> bool \<Rightarrow> awsManager \<Rightarrow> cloud \<Rightarrow> outcome \<times> awsManager \<times> cloud" where
  "rougeLoop [] rejected m c = (if rejected then Rejected else Resolved, m, c)"
| "rougeLoop (name # names) rejected m c =
     (case deleteKeyPair m c name of
        (Threw e, m1, c1) \<Rightarrow> (Threw e, m1, c1)
      | (o1, m1, c1) \<Rightarrow>
          (case killByName m1 c1 name None of
             (Threw e, c2) \<Rightarrow> (Threw e, m1, c2)
           | (o2, c2) \<Rightarrow>
               rougeLoop names (rejected \<or> o1 = Rejected \<or> o2 = Rejected) m1 c2))"

definition rougeKiller :: "awsManager \<Rightarrow> cloud \<Rightarrow> string list \<Rightarrow> outcome \<times> awsManager \<times> cloud" where
  "rougeKiller m c configuredWorkers =
     rougeLoop (filter (\<lambda>name. name \<notin> set configuredWorkers) (knownWorkerTypes m)) False m c"

text \<open>
  \<open>killCapacityOfWorkerType\<close>. \<open>caps\<close> maps each instance type of the worker type
  to its capacity; \<open>capacityOfType\<close> is called outside any \<open>try\<close> here, so its
  exception leaves the function. \<open>caps[t] || 1\<close> reads 1 for a missing type and for
  a capacity of 0.
\<close>

definition buildCaps :: "workerTypeDef \<Rightarrow> error + (string \<rightharpoonup> int)" where
  "buildCaps wt =
     forEachE (\<lambda>caps t. case capacityOfType wt (Some t) of
                  None \<Rightarrow> Inl UnknownInstanceType
                | Some c \<Rightarrow> Inr (caps(t \<mapsto> c)))
       (instanceTypes wt) Map.empty"

definition capOr1 :: "(string \<rightharpoonup> int) \<Rightarrow> string \<Rightarrow> int" where
  "capOr1 caps t = (case caps t of None \<Rightarrow> 1 | Some c \<Rightarrow> if c = 0 then 1 else c)"

text \<open>
  \<open>cont\<close>: \<open>count <= capToKill && capacity - capToKill >= workerType.minCapacity\<close>.
\<close>

definition cont :: "int \<Rightarrow> int \<Rightarrow> int \<Rightarrow> int \<Rightarrow> bool" where
  "cont count capacity minCap capToKill =
     (count \<le> capToKill \<and> capacity - capToKill \<ge> minCap)"

text \<open>
  \<open>toKill[region].push(id)\<close>: \<open>toKill[region]\<close> is the object
  \<open>{instances: [], requests: []}\<close>, or \<open>undefined\<close> for a region that is no key;
  neither has a \<open>push\<close> method, so the call throws a TypeError whatever the store
  holds.
\<close>

definition pushToKill :: "kills \<Rightarrow> string \<Rightarrow> string \<Rightarrow> error + kills" where
  "pushToKill toKill region ident = Inl TypeError"

definition selectStep ::
  "(int \<Rightarrow> bool) \<Rightarrow> int \<Rightarrow> string \<Rightarrow> string \<Rightarrow> int \<times> kills \<Rightarrow> error + int \<times> kills" where
  "selectStep continue cap region ident s =
     (case s of (capToKill, toKill) \<Rightarrow>
        if continue capToKill
        then (case pushToKill toKill region ident of
                Inl e \<Rightarrow> Inl e
              | Inr toKill' \<Rightarrow> Inr (capToKill + cap, toKill'))
        else Inr (capToKill, toKill))"

text \<open>
  The three selection loops, in the source's order: the shuffled open requests and
  the in-flight entries when \<open>states\<close> holds \<open>spotReq\<close>, then the shuffled instances.
  \<open>knuthShuffle\<close> is random; the two permutations it produces are the parameters
  \<open>shuffleR\<close> and \<open>shuffleI\<close>.
\<close>

definition selectToKill ::
  "(spotRequest list \<Rightarrow> spotRequest list) \<Rightarrow> (ec2Instance list \<Rightarrow> ec2Instance list) \<Rightarrow>
   awsManager \<Rightarrow> workerTypeDef \<Rightarrow> int \<Rightarrow> string list \<Rightarrow> (string \<rightharpoonup> int) \<Rightarrow>
   error + int \<times> kills" where
  "selectToKill shuffleR shuffleI m wt count states caps =
     (let capacity = capacityForType m wt (Some states);
          continue = cont count capacity (minCapacity wt);
          s0 = (0, emptyKills (regions m));
          s2 =
            (if ''spotReq'' \<in> set states
             then
               (case forEachE (\<lambda>s r. selectStep continue
                         (capOr1 caps (LaunchSpecification_InstanceType r))
                         (Region r) (SpotInstanceRequestId r) s)
                       (shuffleR (requestsOfType m (workerType wt))) s0 of
                  Inl e \<Rightarrow> Inl e
                | Inr s1 \<Rightarrow>
                    forEachE (\<lambda>s sr.
                        if WorkerType (request sr) = workerType wt
                        then selectStep continue
                               (capOr1 caps (LaunchSpecification_InstanceType (request sr)))
                               (Region (request sr)) (SpotInstanceRequestId (request sr)) s
                        else Inr s)
                      (internalState m) s1)
             else Inr s0)
      in case s2 of
           Inl e \<Rightarrow> Inl e
         | Inr s2' \<Rightarrow>
             forEachE (\<lambda>s i.
                 if State_Name i \<in> set states
                 then selectStep continue (capOr1 caps (InstanceType i))
                        (Region i) (InstanceId i) s
                 else Inr s)
               (shuffleI (instancesOfType m (workerType wt))) s2')"

definition killCapacityOfWorkerType ::
  "(spotRequest list \<Rightarrow> spotRequest list) \<Rightarrow> (ec2Instance list \<Rightarrow> ec2Instance list) \<Rightarrow>
   awsManager \<Rightarrow> cloud \<Rightarrow> workerTypeDef \<Rightarrow> int \<Rightarrow> string list \<Rightarrow> outcome \<times> cloud" where
  "killCapacityOfWorkerType shuffleR shuffleI m c wt count states =
     (case buildCaps wt of
        Inl e \<Rightarrow> (Threw e, c)
      | Inr caps \<Rightarrow>
          (case selectToKill shuffleR shuffleI m wt count states caps of
             Inl e \<Rightarrow> (Threw e, c)
           | Inr (capToKill, toKill) \<Rightarrow>
               (let (rejected, c') =
                      performAll c
                        (concat (map (\<lambda>(region, i, r).
                            if length i + length r > 0 then killCancelCalls region i r else [])
                          toKill))
                in (if rejected then Rejected else Resolved, c'))))"

section \<open>Filtering the open spot requests\<close>

text \<open>
  \<open>_filterSpotRequests\<close>. The response maps each region to its open requests; the
  result maps each region to its good and to its stalled requests. The list of
  stalled states is the source's, character for character.
\<close>

definition stalledStates :: "string list" where
  "stalledStates =
     [''capacity-not-available'',
      ''capacity-oversubscribed'',
      ''price-too-low'',
      ''not-scheduled-yet'',
      ''launch-group-constraint'',
      ''az-group-constraint'',
      ''placement-group-constraint'',
      ''constraint-not-fulfillable '']"

record filtered =
  good :: "(string \<times> spotRequest list) list"
  stalled :: "(string \<times> spotRequest list) list"

text \<open>
  One request: \<open>killWhen\<close> is its create time plus 20 minutes. The three \<open>if\<close>
  statements run one after the other, none ends the callback.
\<close>

definition filterRequest ::
  "time \<Rightarrow> string \<Rightarrow> event list \<times> spotRequest list \<times> spotRequest list \<Rightarrow> spotRequest \<Rightarrow>
   event list \<times> spotRequest list \<times> spotRequest list" where
  "filterRequest now region acc sr =
     (case acc of (events, goodR, stalledR) \<Rightarrow>
        let killWhen = CreateTime sr + 20 * 60 * 1000;
            stalled1 = (if killWhen < now then stalledR @ [sr] else stalledR);
            events1 =
              (if Status_Code sr = ''price-too-low''
               then events @ [SpotPriceFloorFound region (LaunchSpecification_AvailabilityZone sr)
                                (LaunchSpecification_InstanceType sr) (SpotPrice sr)
                                ''spot-request-price-too-low'']
               else events)
        in if Status_Code sr \<in> set stalledStates
           then (events1, goodR, stalled1 @ [sr])
           else (events1, goodR @ [sr], stalled1))"

fun filterSpotRequests ::
  "time \<Rightarrow> (string \<times> spotRequest list) list \<Rightarrow> event list \<times> filtered" where
  "filterSpotRequests now [] = ([], \<lparr>good = [], stalled = []\<rparr>)"
| "filterSpotRequests now ((region, srs) # rest) =
     (case foldl (filterRequest now region) ([], [], []) srs of
        (events, goodR, stalledR) \<Rightarrow>
          (case filterSpotRequests now rest of
             (events', data) \<Rightarrow>
               (events @ events',
                \<lparr>good = (region, goodR) # good data,
                 stalled = (region, stalledR) # stalled data\<rparr>)))"

section \<open>Comparing and reconciling states\<close>

definition compareStates :: "apiSnapshot \<Rightarrow> apiSnapshot \<Rightarrow> apiSnapshot \<Rightarrow> apiSnapshot" where
  "compareStates newState previousState deadSt =
     (let missingInstances =
            filter (\<lambda>ident. ident \<notin> set (map InstanceId (instances newState)))
              (map InstanceId (instances previousState));
          missingRequests =
            filter (\<lambda>ident. ident \<notin> set (map SpotInstanceRequestId (requests newState)))
              (map SpotInstanceRequestId (requests previousState))
      in \<lparr>instances =
            filter (\<lambda>i. InstanceId i \<in> set missingInstances) (instances deadSt),
          requests =
            filter (\<lambda>r. SpotInstanceRequestId r \<in> set missingRequests) (requests deadSt)\<rparr>)"

definition MAX_ITERATIONS_FOR_STATE_RESOLUTION :: int where
  "MAX_ITERATIONS_FOR_STATE_RESOLUTION = 20"

definition plotSpotFulfilment :: "spotRequest \<Rightarrow> event" where
  "plotSpotFulfilment r =
     SpotRequestsFulfilled (SpotInstanceRequestId r) (Region r) (WorkerType r)
       (rInstanceId r) (Status_UpdateTime r)"

definition fulfilled :: "spotRequest \<Rightarrow> bool" where
  "fulfilled r = (State r = ''active'' \<and> Status_Code r = ''fulfilled'')"

text \<open>The loop over \<open>differences.requests\<close>.\<close>

definition departedRequest ::
  "time \<Rightarrow> event list \<times> awaiting list \<Rightarrow> spotRequest \<Rightarrow> event list \<times> awaiting list" where
  "departedRequest now acc r =
     (case acc of (events, aw) \<Rightarrow>
        if fulfilled r then (events @ [plotSpotFulfilment r], aw)
        else if State r = ''open''
        then (events, aw @ [\<lparr>aid = SpotInstanceRequestId r, atime = now, iterationCount = 0\<rparr>])
        else (events @ [SpotRequestsDied (SpotInstanceRequestId r) (Region r) (WorkerType r)
                          (SpotPrice r) (State r) (Status_Code r)], aw))"

text \<open>
  A JavaScript value that is a string or an entry of an awaiting list, and \<open>===\<close>
  with a string on its left: a string is strictly equal to an equal string only, and
  never to an object.
\<close>

datatype jsval = JString string | JAwaiting awaiting

fun strictEqString :: "string \<Rightarrow> jsval \<Rightarrow> bool" where
  "strictEqString s (JString t) = (s = t)"
| "strictEqString s (JAwaiting a) = False"

text \<open>
  The filter over \<open>__awaitingSpotFulfilmentStatus\<close>. The callback compares
  \<open>requestMightHave.SpotInstanceRequestId\<close> with \<open>requestAwaiting\<close>, the entry
  itself. \<open>iterationCount++ > MAX\<close> tests the count before the increment; the
  increment stays on the entry.
\<close>

definition spotMatches :: "awaiting \<Rightarrow> spotRequest list \<Rightarrow> spotRequest list" where
  "spotMatches requestAwaiting dead =
     filter (\<lambda>requestMightHave.
         strictEqString (SpotInstanceRequestId requestMightHave) (JAwaiting requestAwaiting)
         \<and> fulfilled requestMightHave) dead"

definition keepAwaitingSpot :: "spotRequest list \<Rightarrow> awaiting \<Rightarrow> bool" where
  "keepAwaitingSpot dead requestAwaiting =
     (spotMatches requestAwaiting dead = []
      \<and> \<not> iterationCount requestAwaiting > MAX_ITERATIONS_FOR_STATE_RESOLUTION)"

definition bump :: "awaiting \<Rightarrow> awaiting" where
  "bump a = a\<lparr>iterationCount := iterationCount a + 1\<rparr>"

definition sweepAwaitingSpot ::
  "spotRequest list \<Rightarrow> awaiting list \<Rightarrow> event list \<times> awaiting list" where
  "sweepAwaitingSpot dead aw =
     (concat (map (\<lambda>a. map plotSpotFulfilment (spotMatches a dead)) aw),
      map bump (filter (keepAwaitingSpot dead) aw))"

text \<open>
  \<open>plotInstanceDeath\<close>: the termination point, and for a spot termination the price
  floor. \<open>price\<close> starts \<open>undefined\<close>; each loop assigns it from a request with the
  instance's request id while it is falsy; the floor is reported when it ends truthy.
  Both call sites test \<open>StateReason\<close> first, so the \<open>None\<close> case is never reached.
\<close>

definition priceStep :: "ec2Instance \<Rightarrow> jsnum option \<Rightarrow> spotRequest \<Rightarrow> jsnum option" where
  "priceStep i price r =
     (if \<not> truthy price \<and> Some (SpotInstanceRequestId r) = iSpotInstanceRequestId i
      then Some (SpotPrice r) else price)"

definition findPrice :: "apiSnapshot \<Rightarrow> apiSnapshot \<Rightarrow> ec2Instance \<Rightarrow> jsnum option" where
  "findPrice deadSt apiSt i =
     foldl (priceStep i) (foldl (priceStep i) None (requests deadSt)) (requests apiSt)"

text \<open>
  A request that carries the instance's spot request id and a price that
  JavaScript reads as true (a number other than 0).
\<close>

definition matchesWithPrice :: "ec2Instance \<Rightarrow> spotRequest \<Rightarrow> bool" where
  "matchesWithPrice i r =
     (Some (SpotInstanceRequestId r) = iSpotInstanceRequestId i \<and> truthy (Some (SpotPrice r)))"

definition plotInstanceDeath ::
  "apiSnapshot \<Rightarrow> apiSnapshot \<Rightarrow> ec2Instance \<Rightarrow> time \<Rightarrow> event list" where
  "plotInstanceDeath deadSt apiSt i t =
     (case StateReason i of
        None \<Rightarrow> []
      | Some reason \<Rightarrow>
          InstanceTerminated (InstanceId i) (Region i) (iSpotInstanceRequestId i) t (Code reason)
          # (if Code reason = ''Server.SpotInstanceTermination''
             then (case findPrice deadSt apiSt i of
                     Some p \<Rightarrow>
                       if truthy (Some p)
                       then [SpotPriceFloorFound (Region i) (Placement_AvailabilityZone i)
                               (InstanceType i) p ''instance-spot-killed'']
                       else []
                   | None \<Rightarrow> [])
             else []))"

text \<open>\<open>instance.StateReason && instance.StateReason.Code\<close>\<close>

definition hasReason :: "ec2Instance \<Rightarrow> bool" where
  "hasReason i = (case StateReason i of None \<Rightarrow> False | Some reason \<Rightarrow> Code reason \<noteq> [])"

text \<open>The loop over \<open>differences.instances\<close>.\<close>

definition departedInstance ::
  "apiSnapshot \<Rightarrow> apiSnapshot \<Rightarrow> time \<Rightarrow> event list \<times> awaiting list \<Rightarrow> ec2Instance \<Rightarrow>
   event list \<times> awaiting list" where
  "departedInstance deadSt apiSt now acc i =
     (case acc of (events, aw) \<Rightarrow>
        if hasReason i then (events @ plotInstanceDeath deadSt apiSt i now, aw)
        else (events, aw @ [\<lparr>aid = InstanceId i, atime = now, iterationCount = 0\<rparr>]))"

text \<open>The filter over \<open>__awaitingStateReason\<close>.\<close>

definition reasonMatches :: "awaiting \<Rightarrow> ec2Instance list \<Rightarrow> ec2Instance list" where
  "reasonMatches instanceAwaiting dead =
     filter (\<lambda>instanceMightHave.
         InstanceId instanceMightHave = aid instanceAwaiting \<and> hasReason instanceMightHave) dead"

definition keepAwaitingReason :: "ec2Instance list \<Rightarrow> awaiting \<Rightarrow> bool" where
  "keepAwaitingReason dead instanceAwaiting =
     (reasonMatches instanceAwaiting dead = []
      \<and> \<not> iterationCount instanceAwaiting > MAX_ITERATIONS_FOR_STATE_RESOLUTION)"

definition sweepAwaitingReason ::
  "apiSnapshot \<Rightarrow> apiSnapshot \<Rightarrow> awaiting list \<Rightarrow> event list \<times> awaiting list" where
  "sweepAwaitingReason deadSt apiSt aw =
     (concat (map (\<lambda>a. concat (map (\<lambda>i. plotInstanceDeath deadSt apiSt i (atime a))
                                   (reasonMatches a (instances deadSt)))) aw),
      map bump (filter (keepAwaitingReason (instances deadSt)) aw))"

text \<open>
  \<open>_reconcileStateDifferences\<close>: the departed requests, the sweep of the requests
  awaiting fulfilment, the departed instances, the sweep of the instances awaiting a
  state reason.
\<close>

definition reconcileStateDifferences ::
  "time \<Rightarrow> awsManager \<Rightarrow> apiSnapshot \<Rightarrow> apiSnapshot \<Rightarrow> apiSnapshot \<Rightarrow> event list \<times> awsManager" where
  "reconcileStateDifferences now m differences deadSt apiSt =
     (let (e1, aw1) = foldl (departedRequest now) ([], awaitingSpotFulfilmentStatus m)
                        (requests differences);
          (e2, aw2) = sweepAwaitingSpot (requests deadSt) aw1;
          (e3, ar1) = foldl (departedInstance deadSt apiSt now) ([], awaitingStateReason m)
                        (instances differences);
          (e4, ar2) = sweepAwaitingReason deadSt apiSt ar1
      in (e1 @ e2 @ e3 @ e4,
          m\<lparr>awaitingSpotFulfilmentStatus := aw2, awaitingStateReason := ar2\<rparr>))"

text \<open>
  One iteration as \<open>update\<close> runs it: the clock, and the differences, the dead state
  and the current state handed to \<open>_reconcileStateDifferences\<close>. A run is a sequence
  of iterations; only these calls touch the two awaiting lists.
\<close>

record tick =
  tickNow :: time
  tickDifferences :: apiSnapshot
  tickDead :: apiSnapshot
  tickApi :: apiSnapshot

definition reconcileStep :: "awsManager \<Rightarrow> tick \<Rightarrow> awsManager" where
  "reconcileStep m t =
     snd (reconcileStateDifferences (tickNow t) m (tickDifferences t) (tickDead t) (tickApi t))"

definition reconcileRun :: "tick list \<Rightarrow> awsManager \<Rightarrow> awsManager" where
  "reconcileRun ticks m = foldl reconcileStep m ticks"


section \<open>Well-placed fleets\<close>

text \<open>
  The fleet is well placed when every instance, request and in-flight bid lies in a
  region of the adapter (\<open>_classify\<close> and \<open>requestSpotInstance\<close> see to that), and
  live when every instance of the state is running or pending (the filter of
  \<open>describeInstances\<close> in \<open>update\<close>).
\<close>

definition wellPlaced :: "awsManager \<Rightarrow> bool" where
  "wellPlaced m =
     (list_all (\<lambda>i. Region i \<in> set (regions m)) (instances (apiState m))
      \<and> list_all (\<lambda>r. Region r \<in> set (regions m)) (requests (apiState m))
      \<and> list_all (\<lambda>sr. Region (request sr) \<in> set (regions m)) (internalState m))"

definition live :: "awsManager \<Rightarrow> bool" where
  "live m = list_all (\<lambda>i. State_Name i \<in> {''running'', ''pending''}) (instances (apiState m))"

text \<open>
  What \<open>killByName\<close> collects for one region: the ids of the worker type's
  instances in the given states, and the ids of its open requests followed by those
  of its in-flight bids. \<open>killsOf\<close> is the whole store under the default states.
\<close>

definition instanceIdsIn :: "awsManager \<Rightarrow> string \<Rightarrow> string list \<Rightarrow> string \<Rightarrow> string list" where
  "instanceIdsIn m name states r =
     map InstanceId (filter (\<lambda>x. WorkerType x = name \<and> State_Name x \<in> set states \<and> Region x = r)
                       (instances (apiState m)))"

definition requestIdsIn :: "awsManager \<Rightarrow> string \<Rightarrow> string list \<Rightarrow> string \<Rightarrow> string list" where
  "requestIdsIn m name states r =
     map SpotInstanceRequestId
       (filter (\<lambda>x. WorkerType x = name \<and> ''spotReq'' \<in> set states \<and> Region x = r)
          (requests (apiState m)))
     @ map SpotInstanceRequestId
       (filter (\<lambda>x. WorkerType x = name \<and> ''spotReq'' \<in> set states \<and> Region x = r)
          (map request (internalState m)))"

definition killsOf :: "awsManager \<Rightarrow> string \<Rightarrow> kills" where
  "killsOf m name =
     map (\<lambda>r. (r, instanceIdsIn m name defaultStates r, requestIdsIn m name defaultStates r))
       (rev (remdups (rev (regions m))))"

section \<open>Example fleets\<close>

text \<open>Small concrete states on which the theorems below are exercised.\<close>

definition exRequest :: "string \<Rightarrow> string \<Rightarrow> string \<Rightarrow> spotRequest" where
  "exRequest ident region wt =
     \<lparr>Region = region, WorkerType = wt, SpotInstanceRequestId = ident,
      rInstanceType = None, LaunchSpecification_InstanceType = ''m3.large'',
      LaunchSpecification_AvailabilityZone = region @ ''a'', CreateTime = 0,
      State = ''open'', Status_Code = ''pending-evaluation'', Status_Message = [],
      Status_UpdateTime = 0, SpotPrice = Num (41 / 100), rInstanceId = None\<rparr>"

definition exInstance :: "string \<Rightarrow> string \<Rightarrow> string \<Rightarrow> string option \<Rightarrow> ec2Instance" where
  "exInstance ident region wt sird =
     \<lparr>Region = region, WorkerType = wt, InstanceId = ident, InstanceType = ''m3.large'',
      State_Name = ''running'', LaunchTime = 0, Placement_AvailabilityZone = region @ ''a'',
      iSpotInstanceRequestId = sird, StateReason = None\<rparr>"

definition exBid :: "string \<Rightarrow> string \<Rightarrow> string \<Rightarrow> time \<Rightarrow> spotBid" where
  "exBid ident region wt t =
     \<lparr>info_workerType = wt, request = exRequest ident region wt,
      bid = \<lparr>bid_region = region, bid_zone = region @ ''a'', bid_type = ''m3.large''\<rparr>,
      submitted = t\<rparr>"

definition noState :: apiSnapshot where
  "noState = \<lparr>instances = [], requests = []\<rparr>"

definition exManager :: "apiSnapshot \<Rightarrow> spotBid list \<Rightarrow> awsManager" where
  "exManager api inflight =
     \<lparr>regions = [''us-west-2'', ''us-east-1''], keyPrefix = ''managed:'',
      provisionerId = ''aws-provisioner-v1'', knownKeyPairs = [],
      apiState = api, previousApiState = noState, deadState = noState,
      internalState = inflight, awaitingStateReason = [],
      awaitingSpotFulfilmentStatus = []\<rparr>"

text \<open>
  One open request \<open>sir-1\<close>, one instance started by \<open>sir-2\<close>, and four in-flight
  bids: \<open>sir-1\<close> and \<open>sir-2\<close> have become visible, \<open>sir-3\<close> was submitted 16
  minutes before \<open>exNow\<close>, \<open>sir-4\<close> one minute before.
\<close>

definition exNow :: time where
  "exNow = 1000 * 60 * 60"

definition exFleet :: awsManager where
  "exFleet =
     exManager
       \<lparr>instances = [exInstance ''i-1'' ''us-west-2'' ''build'' (Some ''sir-2'')],
        requests = [exRequest ''sir-1'' ''us-east-1'' ''build'']\<rparr>
       [exBid ''sir-1'' ''us-east-1'' ''build'' (exNow - 2 * 60 * 1000),
        exBid ''sir-2'' ''us-west-2'' ''build'' (exNow - 5 * 60 * 1000),
        exBid ''sir-3'' ''us-west-2'' ''build'' (exNow - 16 * 60 * 1000),
        exBid ''sir-4'' ''us-west-2'' ''test'' (exNow - 60 * 1000)]"

definition exWorkerType :: workerTypeDef where
  "exWorkerType =
     \<lparr>workerType = ''build'', minCapacity = 0, instanceTypes = [''m3.large''],
      capacityOfType = (\<lambda>t. if t = Some ''m3.large'' then Some 2 else None)\<rparr>"

definition exCloud :: cloud where
  "exCloud = \<lparr>keyPairs = [], failing = [], issued = []\<rparr>"

text \<open>A fleet with nothing but one in-flight bid, of worker type \<open>test\<close>.\<close>

definition strayBidFleet :: awsManager where
  "strayBidFleet = exManager noState [exBid ''sir-9'' ''us-west-2'' ''test'' 0]"

text \<open>A fleet with nothing but one open request, of worker type \<open>build\<close>.\<close>

definition oneRequestFleet :: awsManager where
  "oneRequestFleet =
     exManager \<lparr>instances = [], requests = [exRequest ''sir-1'' ''us-west-2'' ''build'']\<rparr> []"

definition exMinutes :: "int \<Rightarrow> time" where
  "exMinutes n = n * 60 * 1000"

text \<open>An open request created at time 0, and one created at minute 24.\<close>

definition oldRequest :: spotRequest where
  "oldRequest = exRequest ''sir-1'' ''us-west-2'' ''build''"

definition unfulfillableRequest :: spotRequest where
  "unfulfillableRequest =
     (exRequest ''sir-2'' ''us-west-2'' ''build'')
       \<lparr>CreateTime := exMinutes 24, Status_Code := ''constraint-not-fulfillable''\<rparr>"

text \<open>
  A manager that awaits the fulfilment status of \<open>sir-1\<close>, and a dead state in which
  \<open>sir-1\<close> is active and fulfilled.
\<close>

definition fulfilledRequest :: spotRequest where
  "fulfilledRequest =
     (exRequest ''sir-1'' ''us-west-2'' ''build'')\<lparr>State := ''active'', Status_Code := ''fulfilled''\<rparr>"

definition awaitingFleet :: awsManager where
  "awaitingFleet =
     (exManager noState [])
       \<lparr>awaitingSpotFulfilmentStatus := [\<lparr>aid = ''sir-1'', atime = 0, iterationCount = 0\<rparr>]\<rparr>"

definition deadFulfilled :: apiSnapshot where
  "deadFulfilled = \<lparr>instances = [], requests = [fulfilledRequest]\<rparr>"

text \<open>
  An instance that was terminated for its spot price, started by \<open>sir-1\<close>; the
  request \<open>sir-1\<close> as closed with its bid of 0.41, and the same with a price that
  parses to 0.
\<close>

definition spotKilledInstance :: ec2Instance where
  "spotKilledInstance =
     (exInstance ''i-1'' ''us-west-2'' ''build'' (Some ''sir-1''))
       \<lparr>State_Name := ''terminated'',
        StateReason := Some \<lparr>Code = ''Server.SpotInstanceTermination'',
                               Message = ''Your Spot Instance was terminated.''\<rparr>\<rparr>"

definition paidRequest :: spotRequest where
  "paidRequest =
     (exRequest ''sir-1'' ''us-west-2'' ''build'')
        \<lparr>State := ''closed'', Status_Code := ''instance-terminated-by-price''\<rparr>"

definition freeRequest :: spotRequest where
  "freeRequest = paidRequest\<lparr>SpotPrice := Num 0\<rparr>"

definition spotKilledDifferences :: apiSnapshot where
  "spotKilledDifferences = \<lparr>instances = [spotKilledInstance], requests = []\<rparr>"

definition deadWith :: "spotRequest \<Rightarrow> apiSnapshot" where
  "deadWith r = \<lparr>instances = [spotKilledInstance], requests = [r]\<rparr>"

text \<open>
  A fleet with the worker types \<open>legacy\<close> and \<open>modern\<close>, and a cloud that holds
  the key pair of \<open>legacy\<close> in both regions.
\<close>

definition rogueFleet :: awsManager where
  "rogueFleet =
     (exManager
        \<lparr>instances = [exInstance ''i-1'' ''us-west-2'' ''legacy'' (Some ''sir-0''),
                      exInstance ''i-2'' ''us-east-1'' ''modern'' None],
         requests = [exRequest ''sir-1'' ''us-east-1'' ''legacy'']\<rparr>
        [exBid ''sir-2'' ''us-west-2'' ''legacy'' 0])
       \<lparr>knownKeyPairs := [''legacy'', ''modern'']\<rparr>"

definition rogueCloud :: cloud where
  "rogueCloud =
     \<lparr>keyPairs = [(''us-west-2'', ''managed:legacy''), (''us-east-1'', ''managed:legacy''),
                  (''us-west-2'', ''managed:modern'')],
      failing = [], issued = []\<rparr>"

text \<open>The cloud after \<open>deleteKeyPair\<close> of \<open>legacy\<close>.\<close>

definition legacyDeleted :: cloud where
  "legacyDeleted =
     \<lparr>keyPairs = [(''us-west-2'', ''managed:modern'')], failing = [],
      issued = [DescribeKeyPairs [''us-west-2'', ''us-east-1''] ''managed:legacy'',
                DeleteKeyPair ''us-west-2'' ''managed:legacy'',
                DeleteKeyPair ''us-east-1'' ''managed:legacy'']\<rparr>"

text \<open>
  A bid as \<open>requestSpotInstance\<close> hands it over, its request not yet carrying a
  region or a worker type.
\<close>

definition rawBid :: spotBid where
  "rawBid =
     (exBid ''sir-7'' ''us-east-1'' ''build'' exNow)
       \<lparr>request := (exRequest ''sir-7'' ''us-east-1'' ''build'')\<lparr>Region := [], WorkerType := []\<rparr>\<rparr>"

text \<open>
  A run of 21 iterations. In the first, at time 0, the instance \<open>i-1\<close> departs with
  no state reason and the request \<open>sir-1\<close> departs while the dead state still has it
  open; in the 20 that follow nothing departs and nothing is resolved.
\<close>

definition quietTick :: "time \<Rightarrow> tick" where
  "quietTick t = \<lparr>tickNow = t, tickDifferences = noState, tickDead = noState, tickApi = noState\<rparr>"

definition lostInstance :: ec2Instance where
  "lostInstance =
     (exInstance ''i-1'' ''us-west-2'' ''build'' None)\<lparr>State_Name := ''shutting-down''\<rparr>"

definition departureTick :: tick where
  "departureTick =
     \<lparr>tickNow = 0,
      tickDifferences = \<lparr>instances = [lostInstance], requests = [oldRequest]\<rparr>,
      tickDead = \<lparr>instances = [lostInstance], requests = [oldRequest]\<rparr>,
      tickApi = noState\<rparr>"

definition twentyQuietTicks :: "tick list" where
  "twentyQuietTicks = map quietTick [1, 2, 3, 4, 5, 6, 7, 8, 9, 10,
                                     11, 12, 13, 14, 15, 16, 17, 18, 19, 20]"

text \<open>
  A fleet in which an instance carries the bare key prefix as its key name, so that
  its worker type is the empty name, next to an instance of worker type \<open>legacy\<close>.
\<close>

definition namelessFleet :: awsManager where
  "namelessFleet =
     (exManager
        \<lparr>instances = [exInstance ''i-0'' ''us-west-2'' [] None,
                      exInstance ''i-1'' ''us-west-2'' ''legacy'' (Some ''sir-0'')],
         requests = []\<rparr> [])
       \<lparr>knownKeyPairs := [''legacy'']\<rparr>"

section \<open>Properties of the in-flight tracker\<close>

lemma set_foldl_addInstanceSrId:
  "set (foldl addInstanceSrId acc is) =
     set acc \<union> {s. s \<noteq> [] \<and> Some s \<in> iSpotInstanceRequestId ` set is}"
  by (induction "is" arbitrary: acc) (auto split: option.splits)

lemma set_knownSpotInstanceRequestIds:
  "set (knownSpotInstanceRequestIds m) =
     SpotInstanceRequestId ` set (requests (apiState m)) \<union>
     {s. s \<noteq> [] \<and> Some s \<in> iSpotInstanceRequestId ` set (instances (apiState m))}"
  by (simp add: knownSpotInstanceRequestIds_def set_foldl_addInstanceSrId)

lemma knownSpotInstanceRequestIds_internalState [simp]:
  "knownSpotInstanceRequestIds (m\<lparr>internalState := xs\<rparr>) = knownSpotInstanceRequestIds m"
  by (simp add: knownSpotInstanceRequestIds_def)

text \<open>
  Claim C9. \<open>_trackNewSpotRequest\<close> appends the bid record, with its request's
  region and worker type written, exactly when the request id is not known to the
  API state, that is, when it is neither the id of a request of the state nor the
  (non-empty) spot request id of an instance of the state; otherwise it changes
  nothing. The tracker's own contents play no part in the decision: whatever the
  tracker holds, the outcome is the same, and tracking the same unseen request twice
  leaves two entries.
\<close>

theorem trackNewSpotRequest_iff_unknown:
  "internalState (trackNewSpotRequest m sr) =
     (if SpotInstanceRequestId (request sr) \<in> SpotInstanceRequestId ` set (requests (apiState m))
         \<or> (SpotInstanceRequestId (request sr) \<noteq> []
             \<and> Some (SpotInstanceRequestId (request sr))
                  \<in> iSpotInstanceRequestId ` set (instances (apiState m)))
      then internalState m
      else internalState m @ [tagRequest sr])
   \<and> internalState (trackNewSpotRequest (trackNewSpotRequest m sr) sr) =
     (if SpotInstanceRequestId (request sr) \<in> SpotInstanceRequestId ` set (requests (apiState m))
         \<or> (SpotInstanceRequestId (request sr) \<noteq> []
             \<and> Some (SpotInstanceRequestId (request sr))
                  \<in> iSpotInstanceRequestId ` set (instances (apiState m)))
      then internalState m
      else internalState m @ [tagRequest sr, tagRequest sr])
   \<and> trackNewSpotRequest (m\<lparr>internalState := tracker\<rparr>) sr =
     (if SpotInstanceRequestId (request sr) \<in> SpotInstanceRequestId ` set (requests (apiState m))
         \<or> (SpotInstanceRequestId (request sr) \<noteq> []
             \<and> Some (SpotInstanceRequestId (request sr))
                  \<in> iSpotInstanceRequestId ` set (instances (apiState m)))
      then m\<lparr>internalState := tracker\<rparr>
      else m\<lparr>internalState := tracker @ [tagRequest sr]\<rparr>)"
proof -
  let ?ident = "SpotInstanceRequestId (request sr)"
  have known: "?ident \<in> set (knownSpotInstanceRequestIds m) \<longleftrightarrow>
      ?ident \<in> SpotInstanceRequestId ` set (requests (apiState m))
      \<or> (?ident \<noteq> [] \<and> Some ?ident \<in> iSpotInstanceRequestId ` set (instances (apiState m)))"
    by (simp add: set_knownSpotInstanceRequestIds)
  show ?thesis
    unfolding known [symmetric] by (simp add: trackNewSpotRequest_def)
qed

text \<open>
  On the example fleet: \<open>sir-1\<close> is a request of the state and \<open>sir-2\<close> the spot
  request of an instance, so bids with these ids are not tracked; the bid \<open>sir-7\<close> is
  unknown, is tracked with its region and worker type written, and is tracked again
  on a second call.
\<close>

theorem trackNewSpotRequest_iff_unknown_witness:
  "internalState (trackNewSpotRequest exFleet (exBid ''sir-1'' ''us-east-1'' ''build'' exNow))
     = internalState exFleet
   \<and> internalState (trackNewSpotRequest exFleet (exBid ''sir-2'' ''us-west-2'' ''build'' exNow))
     = internalState exFleet
   \<and> internalState (trackNewSpotRequest exFleet rawBid)
     = internalState exFleet @ [exBid ''sir-7'' ''us-east-1'' ''build'' exNow]
   \<and> internalState (trackNewSpotRequest (trackNewSpotRequest exFleet rawBid) rawBid)
     = internalState exFleet @ [exBid ''sir-7'' ''us-east-1'' ''build'' exNow,
                                exBid ''sir-7'' ''us-east-1'' ''build'' exNow]"
  using trackNewSpotRequest_iff_unknown [of exFleet "exBid ''sir-1'' ''us-east-1'' ''build'' exNow"]
        trackNewSpotRequest_iff_unknown [of exFleet "exBid ''sir-2'' ''us-west-2'' ''build'' exNow"]
        trackNewSpotRequest_iff_unknown [of exFleet rawBid]
  by (simp add: exFleet_def exManager_def exBid_def exRequest_def exInstance_def rawBid_def
        tagRequest_def)

text \<open>
  Claim C5. After \<open>_reconcileInternalState\<close>, every entry left in the in-flight
  tracker was submitted less than 15 minutes before \<open>now\<close>, and its request id is
  not among the ids known to the API state: it is no request's id, and no
  instance's spot request id. (The source's guard \<open>sird &&\<close> reads an empty id on an
  instance as no id, hence the last conjunct speaks of non-empty ids.)
\<close>

theorem reconcileInternalState_remaining:
  assumes "sr \<in> set (internalState (snd (reconcileInternalState now m)))"
  shows "now - submitted sr < 15 * 60 * 1000
     \<and> SpotInstanceRequestId (request sr)
          \<notin> set (knownSpotInstanceRequestIds (snd (reconcileInternalState now m)))
     \<and> SpotInstanceRequestId (request sr)
          \<notin> SpotInstanceRequestId ` set (requests (apiState (snd (reconcileInternalState now m))))
     \<and> (SpotInstanceRequestId (request sr) \<noteq> [] \<longrightarrow>
          Some (SpotInstanceRequestId (request sr))
            \<notin> iSpotInstanceRequestId ` set (instances (apiState (snd (reconcileInternalState now m)))))"
proof -
  let ?known = "knownSpotInstanceRequestIds m"
  from assms have keep: "keepInFlight ?known now sr"
    by (simp add: reconcileInternalState_def Let_def)
  then have young: "now - submitted sr < 15 * 60 * 1000"
    and unknown: "SpotInstanceRequestId (request sr) \<notin> set ?known"
    by (auto simp: keepInFlight_def split: if_splits)
  have same: "knownSpotInstanceRequestIds (snd (reconcileInternalState now m)) = ?known"
    and api: "apiState (snd (reconcileInternalState now m)) = apiState m"
    by (simp_all add: reconcileInternalState_def Let_def)
  from unknown show ?thesis
    unfolding same api using young
    by (auto simp: set_knownSpotInstanceRequestIds)
qed

theorem reconcileInternalState_remaining_witness:
  "exBid ''sir-4'' ''us-west-2'' ''test'' (exNow - 60 * 1000)
      \<in> set (internalState (snd (reconcileInternalState exNow exFleet)))
   \<and> exNow - submitted (exBid ''sir-4'' ''us-west-2'' ''test'' (exNow - 60 * 1000)) < 15 * 60 * 1000
   \<and> ''sir-4'' \<notin> set (knownSpotInstanceRequestIds (snd (reconcileInternalState exNow exFleet)))
   \<and> map (\<lambda>b. SpotInstanceRequestId (request b))
        (internalState (snd (reconcileInternalState exNow exFleet))) = [''sir-4'']"
  using reconcileInternalState_remaining
          [of "exBid ''sir-4'' ''us-west-2'' ''test'' (exNow - 60 * 1000)" exNow exFleet]
  by (simp add: reconcileInternalState_def Let_def knownSpotInstanceRequestIds_def exFleet_def
       exManager_def exBid_def exRequest_def exInstance_def exNow_def keepInFlight_def)

section \<open>Capacity accounting\<close>

text \<open>
  What the source computes: the instances of the worker type in the given states,
  and, when the states hold \<open>spotReq\<close>, the requests of the worker type and every
  in-flight bid, each request and bid at the capacity of its top-level
  \<open>InstanceType\<close>.
\<close>

lemma foldl_addCapacity:
  "foldl (\<lambda>capacity x. if P x then addCapacity wt (t x) capacity else capacity) a xs =
     a + sum_list (map (\<lambda>x. capacityOrOne wt (t x)) (filter P xs))"
  by (induction xs arbitrary: a)
     (simp_all add: addCapacity_def capacityOrOne_def split: option.splits)

lemma capacityForType_sum:
  "capacityForType m wt statesArg =
     sum_list (map (\<lambda>i. capacityOrOne wt (Some (InstanceType i)))
        (filter (\<lambda>i. State_Name i \<in> set (statesOrDefault statesArg))
           (instancesOfType m (workerType wt))))
     + (if ''spotReq'' \<in> set (statesOrDefault statesArg)
        then sum_list (map (\<lambda>r. capacityOrOne wt (rInstanceType r))
               (requestsOfType m (workerType wt)))
             + sum_list (map (\<lambda>sr. capacityOrOne wt (rInstanceType (request sr)))
                 (internalState m))
        else 0)"
  by (simp add: capacityForType_def Let_def foldl_addCapacity)

text \<open>
  Claim C1. The specification counts, for a worker type, its instances in the given
  states, its open requests and its own in-flight bids, each at the capacity of its
  instance type. The source's loop over the in-flight tracker has no test of the
  worker type, and its loops over requests and in-flight bids read the top-level
  \<open>InstanceType\<close> of a request, which is undefined. So a fleet whose only resource is
  an in-flight bid of worker type \<open>test\<close> has capacity 1 for worker type \<open>build\<close>,
  where the specification says 0; and an open \<open>m3.large\<close> request of \<open>build\<close>, of
  capacity 2, counts 1.
\<close>

theorem capacityForType_counts_stray_bid:
  "capacityForType strayBidFleet exWorkerType None = 1
   \<and> capacityForType_spec strayBidFleet exWorkerType defaultStates = 0
   \<and> capacityForType oneRequestFleet exWorkerType None = 1
   \<and> capacityForType_spec oneRequestFleet exWorkerType defaultStates = 2"
  by (simp add: capacityForType_def capacityForType_spec_def exWorkerType_def strayBidFleet_def
        oneRequestFleet_def exManager_def exBid_def exRequest_def noState_def statesOrDefault_def
        defaultStates_def instancesOfType_def requestsOfType_def addCapacity_def capacityOrOne_def)

section \<open>Killing capacity\<close>

lemma forEachE_stuck: "(\<And>x. f s x = Inr s) \<Longrightarrow> forEachE f xs s = Inr s"
  by (induction xs) simp_all

text \<open>
  With a positive \<open>count\<close> the test \<open>count <= capToKill\<close> fails at \<open>capToKill = 0\<close>,
  so no loop ever selects a candidate.
\<close>

lemma selectToKill_positive_count:
  assumes "0 < count"
  shows "selectToKill shuffleR shuffleI m wt count states caps = Inr (0, emptyKills (regions m))"
proof -
  have stop: "\<not> cont count (capacityForType m wt (Some states)) (minCapacity wt) 0"
    using assms by (simp add: cont_def)
  show ?thesis
    unfolding selectToKill_def Let_def
    by (simp add: forEachE_stuck selectStep_def stop)
qed

lemma emptyKills_no_calls:
  "concat (map (\<lambda>(region, i, r). if i = [] \<longrightarrow> r \<noteq> [] then killCancelCalls region i r else [])
      (emptyKills rs)) = []"
  by (simp add: emptyKills_def comp_def)

lemma performAll_Nil: "performAll c [] = (False, c)"
  by (simp add: performAll_def)

lemma killCapacityOfWorkerType_positive_count:
  assumes "0 < count" and "buildCaps wt = Inr caps"
  shows "killCapacityOfWorkerType shuffleR shuffleI m c wt count states = (Resolved, c)"
  using assms
  by (simp add: killCapacityOfWorkerType_def selectToKill_positive_count emptyKills_no_calls
       performAll_Nil)

text \<open>
  Claim C2. Asked to kill a capacity of 1 of a worker type that has one open request
  (capacity 1 in state \<open>spotReq\<close>, minimum capacity 0), \<open>killCapacityOfWorkerType\<close>
  selects nothing and issues no call, whatever the shuffles: the cloud is as before.
  The specification asks for a selection whose capacity is at least \<open>count\<close>.
\<close>

theorem killCapacityOfWorkerType_kills_nothing:
  "capacityForType oneRequestFleet exWorkerType (Some [''spotReq'']) = 1
   \<and> killCapacityOfWorkerType shuffleR shuffleI oneRequestFleet exCloud exWorkerType 1 [''spotReq'']
       = (Resolved, exCloud)"
proof -
  have caps: "buildCaps exWorkerType = Inr [''m3.large'' \<mapsto> 2]"
    by (simp add: buildCaps_def exWorkerType_def)
  have "capacityForType oneRequestFleet exWorkerType (Some [''spotReq'']) = 1"
    by (simp add: capacityForType_def exWorkerType_def oneRequestFleet_def exManager_def
        exRequest_def statesOrDefault_def instancesOfType_def requestsOfType_def addCapacity_def)
  moreover have "killCapacityOfWorkerType shuffleR shuffleI oneRequestFleet exCloud exWorkerType 1
       [''spotReq''] = (Resolved, exCloud)"
    using killCapacityOfWorkerType_positive_count [OF _ caps, of 1] by simp
  ultimately show ?thesis by simp
qed

section \<open>Good and stalled requests\<close>

text \<open>
  What the source computes for one region: the good requests are those whose status
  is not in the list, in order; the stalled ones are those that are old or whose
  status is in the list.
\<close>

lemma good_foldl_filterRequest:
  "fst (snd (foldl (filterRequest now region) (ev, g, s) srs)) =
     g @ filter (\<lambda>sr. Status_Code sr \<notin> set stalledStates) srs"
  by (induction srs arbitrary: ev g s) (simp_all add: filterRequest_def Let_def)

lemma stalled_foldl_filterRequest:
  "set (snd (snd (foldl (filterRequest now region) (ev, g, s) srs))) =
     set s \<union> {sr \<in> set srs. CreateTime sr + 20 * 60 * 1000 < now
                              \<or> Status_Code sr \<in> set stalledStates}"
  by (induction srs arbitrary: ev g s) (auto simp add: filterRequest_def Let_def)

text \<open>
  Claim C3. The specification puts every open request in exactly one of the two
  buckets. In the source the age test pushes onto \<open>stalled\<close> and the status test then
  pushes again, onto \<open>stalled\<close> or \<open>good\<close>: a request created 25 minutes ago whose
  status is \<open>pending-evaluation\<close> is in both buckets. The last entry of the source's
  list of stalled states ends in a space, so a fresh request whose status is
  \<open>constraint-not-fulfillable\<close> is good and not stalled.
\<close>

theorem filterSpotRequests_old_request_in_both:
  "CreateTime oldRequest + exMinutes 20 < exMinutes 25
   \<and> Status_Code oldRequest = ''pending-evaluation''
   \<and> snd (filterSpotRequests (exMinutes 25) [(''us-west-2'', [oldRequest])])
       = \<lparr>good = [(''us-west-2'', [oldRequest])], stalled = [(''us-west-2'', [oldRequest])]\<rparr>
   \<and> snd (filterSpotRequests (exMinutes 25) [(''us-west-2'', [unfulfillableRequest])])
       = \<lparr>good = [(''us-west-2'', [unfulfillableRequest])], stalled = [(''us-west-2'', [])]\<rparr>"
  by (simp add: filterRequest_def stalledStates_def oldRequest_def unfulfillableRequest_def
        exRequest_def exMinutes_def)

section \<open>Requests awaiting their fulfilment status\<close>

text \<open>
  The sweep compares a request id, a string, with the awaiting entry, an object, so
  no dead request ever matches: the sweep reports nothing and drops entries by their
  count alone.
\<close>

lemma spotMatches_Nil: "spotMatches a dead = []"
  by (simp add: spotMatches_def)

lemma keepAwaitingSpot_count:
  "keepAwaitingSpot dead = (\<lambda>a. \<not> iterationCount a > MAX_ITERATIONS_FOR_STATE_RESOLUTION)"
  by (simp add: fun_eq_iff keepAwaitingSpot_def spotMatches_Nil)

lemma sweepAwaitingSpot_silent:
  "sweepAwaitingSpot dead aw =
     ([], map bump (filter (\<lambda>a. \<not> iterationCount a > MAX_ITERATIONS_FOR_STATE_RESOLUTION) aw))"
  by (simp add: sweepAwaitingSpot_def keepAwaitingSpot_count spotMatches_Nil)

text \<open>
  Claim C4. The manager awaits the status of \<open>sir-1\<close>, and the dead state holds
  \<open>sir-1\<close> as active and fulfilled. The reconcile sweep reports no fulfilment and
  keeps the entry, its count raised to 1; the specification asks for a
  \<open>request_fulfilled\<close> event and the removal of the entry.
\<close>

theorem awaiting_fulfilment_never_resolved:
  "SpotInstanceRequestId fulfilledRequest = ''sir-1'' \<and> fulfilled fulfilledRequest
   \<and> reconcileStateDifferences exNow awaitingFleet noState deadFulfilled noState
      = ([], awaitingFleet\<lparr>awaitingSpotFulfilmentStatus :=
                [\<lparr>aid = ''sir-1'', atime = 0, iterationCount = 1\<rparr>]\<rparr>)"
  by (simp add: reconcileStateDifferences_def sweepAwaitingSpot_silent sweepAwaitingReason_def
       awaitingFleet_def deadFulfilled_def fulfilledRequest_def exRequest_def exManager_def
       noState_def fulfilled_def bump_def MAX_ITERATIONS_FOR_STATE_RESOLUTION_def)

section \<open>The retry budget of the awaiting lists\<close>

text \<open>
  An entry is kept while its count before the increment is at most 20, so a kept
  entry has a count of at most 21 after a sweep, in either list.
\<close>

lemma sweepAwaitingSpot_count:
  "a \<in> set (snd (sweepAwaitingSpot dead aw)) \<Longrightarrow> iterationCount a \<le> 21"
  by (auto simp: sweepAwaitingSpot_def keepAwaitingSpot_def bump_def
        MAX_ITERATIONS_FOR_STATE_RESOLUTION_def)

lemma sweepAwaitingReason_count:
  "a \<in> set (snd (sweepAwaitingReason deadSt apiSt aw)) \<Longrightarrow> iterationCount a \<le> 21"
  by (auto simp: sweepAwaitingReason_def keepAwaitingReason_def bump_def
        MAX_ITERATIONS_FOR_STATE_RESOLUTION_def)

text \<open>
  What one iteration does to the two lists: the entries queued by this call are
  appended with count 0, the filter runs over old and new entries alike, and every
  entry that is kept has its count raised by one.
\<close>

lemma snd_foldl_departedRequest:
  "snd (foldl (departedRequest now) (ev, aw) rs) =
     aw @ map (\<lambda>r. \<lparr>aid = SpotInstanceRequestId r, atime = now, iterationCount = 0\<rparr>)
            (filter (\<lambda>r. \<not> fulfilled r \<and> State r = ''open'') rs)"
  by (induction rs arbitrary: ev aw) (simp_all add: departedRequest_def)

lemma snd_foldl_departedInstance:
  "snd (foldl (departedInstance deadSt apiSt now) (ev, aw) is) =
     aw @ map (\<lambda>i. \<lparr>aid = InstanceId i, atime = now, iterationCount = 0\<rparr>)
            (filter (\<lambda>i. \<not> hasReason i) is)"
  by (induction "is" arbitrary: ev aw) (simp_all add: departedInstance_def)

lemma awaitingSpot_reconcileStep:
  "awaitingSpotFulfilmentStatus (reconcileStep m t) =
     map bump (filter (keepAwaitingSpot (requests (tickDead t)))
       (awaitingSpotFulfilmentStatus m
        @ map (\<lambda>r. \<lparr>aid = SpotInstanceRequestId r, atime = tickNow t, iterationCount = 0\<rparr>)
            (filter (\<lambda>r. \<not> fulfilled r \<and> State r = ''open'') (requests (tickDifferences t)))))"
  using snd_foldl_departedRequest [of "tickNow t" "[]" "awaitingSpotFulfilmentStatus m"
          "requests (tickDifferences t)"]
  by (auto simp: reconcileStep_def reconcileStateDifferences_def sweepAwaitingSpot_def
        sweepAwaitingReason_def split: prod.splits)

lemma awaitingReason_reconcileStep:
  "awaitingStateReason (reconcileStep m t) =
     map bump (filter (keepAwaitingReason (instances (tickDead t)))
       (awaitingStateReason m
        @ map (\<lambda>i. \<lparr>aid = InstanceId i, atime = tickNow t, iterationCount = 0\<rparr>)
            (filter (\<lambda>i. \<not> hasReason i) (instances (tickDifferences t)))))"
  using snd_foldl_departedInstance [of "tickDead t" "tickApi t" "tickNow t" "[]"
          "awaitingStateReason m" "instances (tickDifferences t)"]
  by (auto simp: reconcileStep_def reconcileStateDifferences_def sweepAwaitingSpot_def
        sweepAwaitingReason_def split: prod.splits)








lemma awaiting_dropped_21st_later:
  "awaitingSpotFulfilmentStatus
      (reconcileRun (departureTick # twentyQuietTicks @ [quietTick 21]) (exManager noState [])) = []
   \<and> awaitingStateReason
      (reconcileRun (departureTick # twentyQuietTicks @ [quietTick 21]) (exManager noState [])) = []"
  by (simp add: reconcileRun_def awaitingSpot_reconcileStep awaitingReason_reconcileStep
        twentyQuietTicks_def quietTick_def departureTick_def lostInstance_def oldRequest_def
        exRequest_def exInstance_def exManager_def noState_def keepAwaitingSpot_def
        keepAwaitingReason_def spotMatches_def reasonMatches_def hasReason_def fulfilled_def
        bump_def MAX_ITERATIONS_FOR_STATE_RESOLUTION_def)


section \<open>Departed instances and the price floor\<close>

lemma foldl_priceStep_truthy:
  "truthy price \<Longrightarrow> foldl (priceStep i) price rs = price"
  by (induction rs) (simp_all add: priceStep_def)

text \<open>
  From a falsy start the two loops end with the price of the first request that
  matches with a truthy price, and falsy when there is none.
\<close>

lemma foldl_priceStep_find:
  "\<not> truthy price \<Longrightarrow>
   (case find (matchesWithPrice i) rs of
      Some r0 \<Rightarrow> foldl (priceStep i) price rs = Some (SpotPrice r0)
    | None \<Rightarrow> \<not> truthy (foldl (priceStep i) price rs))"
proof (induction rs arbitrary: price)
  case Nil
  then show ?case by simp
next
  case (Cons r rs)
  show ?case
  proof (cases "matchesWithPrice i r")
    case True
    then have "priceStep i price r = Some (SpotPrice r)" and "truthy (Some (SpotPrice r))"
      using Cons.prems by (simp_all add: priceStep_def matchesWithPrice_def)
    then show ?thesis using True by (simp add: foldl_priceStep_truthy)
  next
    case False
    then have "\<not> truthy (priceStep i price r)"
      using Cons.prems by (auto simp: priceStep_def matchesWithPrice_def)
    from Cons.IH [OF this] False show ?thesis by (simp split: option.splits)
  qed
qed

lemma findPrice_find:
  "find (matchesWithPrice i) (requests deadSt @ requests apiSt) = Some r0 \<Longrightarrow>
   findPrice deadSt apiSt i = Some (SpotPrice r0) \<and> truthy (Some (SpotPrice r0))"
  using foldl_priceStep_find [of None i "requests deadSt @ requests apiSt"]
  by (auto simp: findPrice_def matchesWithPrice_def dest: find_Some_iff [THEN iffD1])

lemma findPrice_none:
  "find (matchesWithPrice i) (requests deadSt @ requests apiSt) = None \<Longrightarrow>
   \<not> truthy (findPrice deadSt apiSt i)"
  using foldl_priceStep_find [of None i "requests deadSt @ requests apiSt"]
  by (simp add: findPrice_def)

lemma fst_foldl_departedInstance:
  "fst (foldl (departedInstance deadSt apiSt now) (ev, aw) is) =
     ev @ concat (map (\<lambda>i. if hasReason i then plotInstanceDeath deadSt apiSt i now else []) is)"
  by (induction "is" arbitrary: ev aw) (simp_all add: departedInstance_def)

lemma departed_events:
  assumes i: "i \<in> set (instances differences)" and h: "hasReason i"
  shows "set (plotInstanceDeath deadSt apiSt i now)
     \<subseteq> set (fst (reconcileStateDifferences now m differences deadSt apiSt))"
proof -
  obtain e1 aw1 where a:
    "foldl (departedRequest now) ([], awaitingSpotFulfilmentStatus m) (requests differences)
       = (e1, aw1)"
    by (cases "foldl (departedRequest now) ([], awaitingSpotFulfilmentStatus m)
                 (requests differences)")
  obtain e2 aw2 where b: "sweepAwaitingSpot (requests deadSt) aw1 = (e2, aw2)"
    by (cases "sweepAwaitingSpot (requests deadSt) aw1")
  obtain e3 ar1 where c:
    "foldl (departedInstance deadSt apiSt now) ([], awaitingStateReason m) (instances differences)
       = (e3, ar1)"
    by (cases "foldl (departedInstance deadSt apiSt now) ([], awaitingStateReason m)
                 (instances differences)")
  obtain e4 ar2 where d: "sweepAwaitingReason deadSt apiSt ar1 = (e4, ar2)"
    by (cases "sweepAwaitingReason deadSt apiSt ar1")
  have ev: "fst (reconcileStateDifferences now m differences deadSt apiSt) = e1 @ e2 @ e3 @ e4"
    by (simp add: reconcileStateDifferences_def a b c d)
  have "e3 = concat (map (\<lambda>i. if hasReason i then plotInstanceDeath deadSt apiSt i now else [])
                (instances differences))"
    using fst_foldl_departedInstance [of deadSt apiSt now "[]" "awaitingStateReason m"
            "instances differences"] c by simp
  then have "set (plotInstanceDeath deadSt apiSt i now) \<subseteq> set e3"
    using i h by auto
  then show ?thesis unfolding ev by auto
qed

text \<open>
  Claim C7, as stated, fails: the floor is reported only when the price found is
  truthy. The instance \<open>i-1\<close> departs with reason \<open>Server.SpotInstanceTermination\<close>,
  the dead state holds its request \<open>sir-1\<close>, whose price parses to 0; the only event
  is the termination.
\<close>

theorem spot_price_floor_counterexample:
  "spotKilledInstance \<in> set (instances spotKilledDifferences)
   \<and> map_option Code (StateReason spotKilledInstance) = Some ''Server.SpotInstanceTermination''
   \<and> freeRequest \<in> set (requests (deadWith freeRequest))
   \<and> Some (SpotInstanceRequestId freeRequest) = iSpotInstanceRequestId spotKilledInstance
   \<and> fst (reconcileStateDifferences exNow (exManager noState []) spotKilledDifferences
            (deadWith freeRequest) noState)
       = [InstanceTerminated ''i-1'' ''us-west-2'' (Some ''sir-1'') exNow
            ''Server.SpotInstanceTermination'']"
  by (simp add: reconcileStateDifferences_def departedInstance_def plotInstanceDeath_def
        hasReason_def findPrice_def priceStep_def sweepAwaitingSpot_def sweepAwaitingReason_def
        spotKilledDifferences_def deadWith_def spotKilledInstance_def freeRequest_def
        paidRequest_def exInstance_def exRequest_def exManager_def noState_def)

text \<open>
  Claim C7, amended. For every departed instance whose state reason code is
  \<open>Server.SpotInstanceTermination\<close>, an \<open>instance_terminated\<close> event is emitted; and
  when some request of the dead or the current state has the instance's spot request
  id and a bid price that parses to a number other than 0, a \<open>spot_price_floor\<close>
  event is emitted as well, carrying the bid price of the first such request, the
  dead state searched before the current one.
\<close>

theorem spot_termination_events:
  assumes departed: "i \<in> set (instances differences)"
      and reason: "StateReason i = Some reason"
      and code: "Code reason = ''Server.SpotInstanceTermination''"
  shows "InstanceTerminated (InstanceId i) (Region i) (iSpotInstanceRequestId i) now (Code reason)
           \<in> set (fst (reconcileStateDifferences now m differences deadSt apiSt))
     \<and> (r \<in> set (requests deadSt @ requests apiSt)
          \<and> Some (SpotInstanceRequestId r) = iSpotInstanceRequestId i
          \<and> truthy (Some (SpotPrice r))
        \<longrightarrow> (\<exists>r0. find (matchesWithPrice i) (requests deadSt @ requests apiSt) = Some r0
                \<and> SpotPriceFloorFound (Region i) (Placement_AvailabilityZone i) (InstanceType i)
                     (SpotPrice r0) ''instance-spot-killed''
                   \<in> set (fst (reconcileStateDifferences now m differences deadSt apiSt))))"
proof -
  let ?events = "fst (reconcileStateDifferences now m differences deadSt apiSt)"
  have has: "hasReason i" using reason code by (simp add: hasReason_def)
  have sub: "set (plotInstanceDeath deadSt apiSt i now) \<subseteq> set ?events"
    using departed_events [OF departed has] .
  have "InstanceTerminated (InstanceId i) (Region i) (iSpotInstanceRequestId i) now (Code reason)
          \<in> set (plotInstanceDeath deadSt apiSt i now)"
    using reason code by (simp add: plotInstanceDeath_def)
  with sub have terminated:
    "InstanceTerminated (InstanceId i) (Region i) (iSpotInstanceRequestId i) now (Code reason)
       \<in> set ?events" by blast
  have floor: "\<exists>r0. find (matchesWithPrice i) (requests deadSt @ requests apiSt) = Some r0
                \<and> SpotPriceFloorFound (Region i) (Placement_AvailabilityZone i) (InstanceType i)
                     (SpotPrice r0) ''instance-spot-killed'' \<in> set ?events"
    if r: "r \<in> set (requests deadSt @ requests apiSt)"
      and m: "Some (SpotInstanceRequestId r) = iSpotInstanceRequestId i"
      and p: "truthy (Some (SpotPrice r))"
  proof -
    have "matchesWithPrice i r" using m p by (simp add: matchesWithPrice_def)
    with r obtain r0 where
      r0: "find (matchesWithPrice i) (requests deadSt @ requests apiSt) = Some r0"
      by (cases "find (matchesWithPrice i) (requests deadSt @ requests apiSt)")
         (auto simp: find_None_iff)
    from findPrice_find [OF r0]
    have "SpotPriceFloorFound (Region i) (Placement_AvailabilityZone i) (InstanceType i)
            (SpotPrice r0) ''instance-spot-killed'' \<in> set (plotInstanceDeath deadSt apiSt i now)"
      using reason code by (simp add: plotInstanceDeath_def)
    with sub r0 show ?thesis by blast
  qed
  from terminated floor show ?thesis by blast
qed

theorem spot_termination_events_witness:
  "spotKilledInstance \<in> set (instances spotKilledDifferences)
   \<and> StateReason spotKilledInstance
       = Some \<lparr>Code = ''Server.SpotInstanceTermination'',
               Message = ''Your Spot Instance was terminated.''\<rparr>
   \<and> paidRequest \<in> set (requests (deadWith paidRequest) @ requests noState)
   \<and> Some (SpotInstanceRequestId paidRequest) = iSpotInstanceRequestId spotKilledInstance
   \<and> truthy (Some (SpotPrice paidRequest))
   \<and> InstanceTerminated ''i-1'' ''us-west-2'' (Some ''sir-1'') exNow ''Server.SpotInstanceTermination''
       \<in> set (fst (reconcileStateDifferences exNow (exManager noState []) spotKilledDifferences
                     (deadWith paidRequest) noState))
   \<and> SpotPriceFloorFound ''us-west-2'' ''us-west-2a'' ''m3.large'' (Num (41 / 100))
         ''instance-spot-killed''
       \<in> set (fst (reconcileStateDifferences exNow (exManager noState []) spotKilledDifferences
                     (deadWith paidRequest) noState))"
  using spot_termination_events
          [where i = spotKilledInstance and differences = spotKilledDifferences
             and reason = "\<lparr>Code = ''Server.SpotInstanceTermination'',
                             Message = ''Your Spot Instance was terminated.''\<rparr>"
             and r = paidRequest and deadSt = "deadWith paidRequest" and apiSt = noState
             and now = exNow and m = "exManager noState []"]
  by (simp add: matchesWithPrice_def spotKilledDifferences_def deadWith_def
        spotKilledInstance_def paidRequest_def exInstance_def exRequest_def noState_def)

section \<open>The cloud adapter's log\<close>

lemma issued_effect [simp]: "issued (effect x c) = issued c"
  by (cases x) simp_all

lemma failing_effect [simp]: "failing (effect x c) = failing c"
  by (cases x) simp_all

lemma issued_perform [simp]: "issued (perform c x) = issued c @ [x]"
  by (simp add: perform_def Let_def)

lemma failing_perform [simp]: "failing (perform c x) = failing c"
  by (simp add: perform_def Let_def)

lemma issued_foldl_perform [simp]: "issued (foldl perform c xs) = issued c @ xs"
  by (induction xs arbitrary: c) simp_all

lemma failing_foldl_perform [simp]: "failing (foldl perform c xs) = failing c"
  by (induction xs arbitrary: c) simp_all

lemma rejects_none [simp]: "failing c = [] \<Longrightarrow> \<not> rejects c x"
  by (simp add: rejects_def list_ex_iff)

lemma list_ex_rejects_none [simp]: "failing c = [] \<Longrightarrow> \<not> list_ex (rejects c) xs"
  by (simp add: list_ex_iff)

text \<open>Key pairs after a run of delete calls that all resolve.\<close>

lemma keyPairs_deletes:
  "failing c = [] \<Longrightarrow>
   keyPairs (foldl perform c (map (\<lambda>region. DeleteKeyPair region k) rs)) =
     filter (\<lambda>p. p \<notin> (\<lambda>region. (region, k)) ` set rs) (keyPairs c)"
proof (induction rs arbitrary: c)
  case Nil
  then show ?case by simp
next
  case (Cons r rs)
  have step: "keyPairs (perform c (DeleteKeyPair r k)) = filter (\<lambda>p. p \<noteq> (r, k)) (keyPairs c)"
    using Cons.prems by (simp add: perform_def Let_def)
  have "failing (perform c (DeleteKeyPair r k)) = []" using Cons.prems by simp
  from Cons.IH [OF this] show ?case
    by (simp add: step)
qed

lemma keyPairs_no_effect:
  "list_all (\<lambda>x. \<forall>r k. x \<noteq> ImportKeyPair r k \<and> x \<noteq> DeleteKeyPair r k) xs \<Longrightarrow>
   keyPairs (foldl perform c xs) = keyPairs c"
proof (induction xs arbitrary: c)
  case Nil
  then show ?case by simp
next
  case (Cons x xs)
  then have "keyPairs (perform c x) = keyPairs c"
    by (cases x) (simp_all add: perform_def Let_def)
  with Cons show ?case by simp
qed

lemma deleteKeyPair_resolves:
  assumes up: "failing c = []" and name: "workerName \<noteq> []"
  shows "\<exists>c'. deleteKeyPair m c workerName =
            (Resolved, m\<lparr>knownKeyPairs := filter (\<lambda>k. k \<noteq> workerName) (knownKeyPairs m)\<rparr>, c')
          \<and> failing c' = []
          \<and> set (keyPairs c') \<subseteq> set (keyPairs c)
          \<and> (\<forall>region \<in> set (regions m). (region, keyPrefix m @ workerName) \<notin> set (keyPairs c'))
          \<and> (\<exists>ys. issued c' = issued c @ ys)"
proof -
  let ?k = "keyPrefix m @ workerName"
  let ?c1 = "perform c (DescribeKeyPairs (regions m) ?k)"
  let ?rs = "filter (\<lambda>region. (region, ?k) \<in> set (keyPairs c)) (regions m)"
  let ?c2 = "foldl perform ?c1 (map (\<lambda>region. DeleteKeyPair region ?k) ?rs)"
  have up1: "failing ?c1 = []" using up by simp
  have kp1: "keyPairs ?c1 = keyPairs c" using up by (simp add: perform_def Let_def)
  have eq: "deleteKeyPair m c workerName =
            (Resolved, m\<lparr>knownKeyPairs := filter (\<lambda>k. k \<noteq> workerName) (knownKeyPairs m)\<rparr>, ?c2)"
    using up name up1 by (simp add: deleteKeyPair_def Let_def performAll_def)
  have kp2: "keyPairs ?c2 = filter (\<lambda>p. p \<notin> (\<lambda>region. (region, ?k)) ` set ?rs) (keyPairs c)"
    using keyPairs_deletes [OF up1, of ?k ?rs] kp1 by simp
  have "set (keyPairs ?c2) \<subseteq> set (keyPairs c)" unfolding kp2 by auto
  moreover have "\<forall>region \<in> set (regions m). (region, ?k) \<notin> set (keyPairs ?c2)"
    unfolding kp2 by auto
  moreover have "failing ?c2 = []" using up by simp
  moreover have "\<exists>ys. issued ?c2 = issued c @ ys" by simp
  ultimately show ?thesis using eq by blast
qed

section \<open>The key pair cache\<close>

lemma createKeyPair_cached:
  "workerName \<noteq> [] \<Longrightarrow> workerName \<in> set (knownKeyPairs m) \<Longrightarrow>
   createKeyPair m c workerName = (Resolved, m, c)"
  by (simp add: createKeyPair_def)

lemma createKeyPair_issued:
  assumes "workerName \<noteq> []" and "workerName \<notin> set (knownKeyPairs m)"
  shows "issued (snd (snd (createKeyPair m c workerName))) =
           issued c @ DescribeKeyPairs (regions m) (keyPrefix m @ workerName)
             # (if rejects c (DescribeKeyPairs (regions m) (keyPrefix m @ workerName)) then []
                else map (\<lambda>region. ImportKeyPair region (keyPrefix m @ workerName))
                       (filter (\<lambda>region. (region, keyPrefix m @ workerName) \<notin> set (keyPairs c))
                          (regions m)))"
  using assms
  by (simp add: createKeyPair_def Let_def performAll_def split: prod.splits)

text \<open>
  Claim C10. When \<open>deleteKeyPair\<close> of a worker name has resolved, the name is no
  longer in the cache of known key pairs and every other cached name is still there,
  in the same order. A following \<open>createKeyPair\<close> of the name, in whatever cloud
  \<open>c2\<close>, therefore does not return at the cache test: it issues the
  \<open>describeKeyPairs\<close> call over the regions and, when that resolves, an
  \<open>importKeyPair\<close> for every region that lacks the key.
\<close>

theorem deleteKeyPair_forgets_key:
  assumes "deleteKeyPair m c workerName = (Resolved, m', c')"
  shows "workerName \<notin> set (knownKeyPairs m')
     \<and> knownKeyPairs m' = filter (\<lambda>k. k \<noteq> workerName) (knownKeyPairs m)
     \<and> set (knownKeyPairs m') = set (knownKeyPairs m) - {workerName}
     \<and> fst (createKeyPair m' c2 workerName) \<noteq> Threw AssertionError
     \<and> issued (snd (snd (createKeyPair m' c2 workerName))) =
           issued c2 @ DescribeKeyPairs (regions m') (keyPrefix m' @ workerName)
             # (if rejects c2 (DescribeKeyPairs (regions m') (keyPrefix m' @ workerName)) then []
                else map (\<lambda>region. ImportKeyPair region (keyPrefix m' @ workerName))
                       (filter (\<lambda>region. (region, keyPrefix m' @ workerName) \<notin> set (keyPairs c2))
                          (regions m')))"
proof -
  from assms have name: "workerName \<noteq> []"
    by (auto simp: deleteKeyPair_def split: if_splits)
  from assms have cache: "knownKeyPairs m' = filter (\<lambda>k. k \<noteq> workerName) (knownKeyPairs m)"
    by (auto simp: deleteKeyPair_def Let_def split: if_splits prod.splits)
  then have absent: "workerName \<notin> set (knownKeyPairs m')" by simp
  have others: "set (knownKeyPairs m') = set (knownKeyPairs m) - {workerName}"
    unfolding cache by auto
  have nothrow: "fst (createKeyPair m' c2 workerName) \<noteq> Threw AssertionError"
    using name by (simp add: createKeyPair_def Let_def split: prod.splits)
  from cache absent others nothrow createKeyPair_issued [OF name absent, of c2]
  show ?thesis by simp
qed

theorem deleteKeyPair_forgets_key_witness:
  "deleteKeyPair rogueFleet rogueCloud ''legacy''
     = (Resolved, rogueFleet\<lparr>knownKeyPairs := [''modern'']\<rparr>, legacyDeleted)
   \<and> ''legacy'' \<notin> set (knownKeyPairs (rogueFleet\<lparr>knownKeyPairs := [''modern'']\<rparr>))
   \<and> issued (snd (snd (createKeyPair (rogueFleet\<lparr>knownKeyPairs := [''modern'']\<rparr>)
                          legacyDeleted ''legacy'')))
       = issued legacyDeleted
         @ [DescribeKeyPairs [''us-west-2'', ''us-east-1''] ''managed:legacy'',
            ImportKeyPair ''us-west-2'' ''managed:legacy'',
            ImportKeyPair ''us-east-1'' ''managed:legacy'']"
proof -
  have del: "deleteKeyPair rogueFleet rogueCloud ''legacy''
     = (Resolved, rogueFleet\<lparr>knownKeyPairs := [''modern'']\<rparr>, legacyDeleted)"
    by (simp add: deleteKeyPair_def perform_def rejects_def performAll_def Let_def
          rogueFleet_def rogueCloud_def legacyDeleted_def exManager_def)
  from deleteKeyPair_forgets_key [OF del, of legacyDeleted] del
  show ?thesis
    by (simp add: rejects_def rogueFleet_def legacyDeleted_def exManager_def)
qed

section \<open>The rogue killer\<close>

text \<open>The store after a loop of pushes, when every region pushed to is a key.\<close>

lemma fst_set_push [simp]:
  "fst ` set (map (\<lambda>(r, i, q). if r = region then (r, f r i q) else (r, i, q)) ks) = fst ` set ks"
  by (induction ks) auto

lemma forEachE_killInstanceStep:
  "list_all (\<lambda>x. Region x \<in> fst ` set ks) xs \<Longrightarrow>
   forEachE (killInstanceStep name states) xs ks =
     Inr (map (\<lambda>(r, i, q).
            (r, i @ map InstanceId (filter (\<lambda>x. WorkerType x = name \<and> State_Name x \<in> set states
                                              \<and> Region x = r) xs), q)) ks)"
proof (induction xs arbitrary: ks)
  case Nil
  then show ?case by (simp add: case_prod_beta)
next
  case (Cons x xs)
  show ?case
  proof (cases "WorkerType x = name \<and> State_Name x \<in> set states")
    case True
    let ?ks' = "map (\<lambda>(r, i, q). if r = Region x then (r, i @ [InstanceId x], q) else (r, i, q)) ks"
    have keys: "fst ` set ?ks' = fst ` set ks"
      by (induction ks) auto
    have step: "killInstanceStep name states ks x = Inr ?ks'"
      using True Cons.prems by (simp add: killInstanceStep_def pushInstanceId_def)
    have "list_all (\<lambda>x. Region x \<in> fst ` set ?ks') xs"
      using Cons.prems unfolding keys by simp
    from Cons.IH [OF this] show ?thesis
      using True by (simp add: step case_prod_beta) 
  next
    case False
    have step: "killInstanceStep name states ks x = Inr ks"
      using False by (auto simp: killInstanceStep_def)
    have "list_all (\<lambda>x. Region x \<in> fst ` set ks) xs" using Cons.prems by simp
    from Cons.IH [OF this] show ?thesis
      using False by (auto simp add: step case_prod_beta)
  qed
qed

lemma forEachE_killRequestStep:
  "list_all (\<lambda>x. Region x \<in> fst ` set ks) xs \<Longrightarrow>
   forEachE (killRequestStep name states) xs ks =
     Inr (map (\<lambda>(r, i, q).
            (r, i, q @ map SpotInstanceRequestId
                        (filter (\<lambda>x. WorkerType x = name \<and> ''spotReq'' \<in> set states
                                      \<and> Region x = r) xs))) ks)"
proof (induction xs arbitrary: ks)
  case Nil
  then show ?case by (simp add: case_prod_beta)
next
  case (Cons x xs)
  show ?case
  proof (cases "WorkerType x = name \<and> ''spotReq'' \<in> set states")
    case True
    let ?ks' = "map (\<lambda>(r, i, q). if r = Region x then (r, i, q @ [SpotInstanceRequestId x])
                                   else (r, i, q)) ks"
    have keys: "fst ` set ?ks' = fst ` set ks"
      by (induction ks) auto
    have step: "killRequestStep name states ks x = Inr ?ks'"
      using True Cons.prems by (simp add: killRequestStep_def pushRequestId_def)
    have "list_all (\<lambda>x. Region x \<in> fst ` set ?ks') xs"
      using Cons.prems unfolding keys by simp
    from Cons.IH [OF this] show ?thesis
      using True by (simp add: step case_prod_beta)
  next
    case False
    have step: "killRequestStep name states ks x = Inr ks"
      using False by (auto simp: killRequestStep_def)
    have "list_all (\<lambda>x. Region x \<in> fst ` set ks) xs" using Cons.prems by simp
    from Cons.IH [OF this] show ?thesis
      using False by (auto simp add: step case_prod_beta)
  qed
qed

lemma fst_set_emptyKills [simp]: "fst ` set (emptyKills rs) = set rs"
  by (auto simp: emptyKills_def image_iff)

lemma killsByName_wellPlaced:
  assumes "wellPlaced m"
  shows "killsByName m name states =
     Inr (map (\<lambda>r. (r, instanceIdsIn m name states r, requestIdsIn m name states r))
            (rev (remdups (rev (regions m)))))"
proof -
  let ?k0 = "emptyKills (regions m)"
  let ?k1 = "map (\<lambda>(r, i, q). (r, i @ instanceIdsIn m name states r, q)) ?k0"
  let ?k2 = "map (\<lambda>(r, i, q). (r, i, q @ map SpotInstanceRequestId
                        (filter (\<lambda>x. WorkerType x = name \<and> ''spotReq'' \<in> set states
                                      \<and> Region x = r) (requests (apiState m))))) ?k1"
  have a: "forEachE (killInstanceStep name states) (instances (apiState m)) ?k0 = Inr ?k1"
    using assms forEachE_killInstanceStep [of ?k0 "instances (apiState m)" name states]
    by (simp add: wellPlaced_def instanceIdsIn_def)
  have keys1: "fst ` set ?k1 = set (regions m)"
    by (auto simp: emptyKills_def image_iff)
  have b: "forEachE (killRequestStep name states) (requests (apiState m)) ?k1 = Inr ?k2"
    using assms forEachE_killRequestStep [of ?k1 "requests (apiState m)" name states]
    unfolding keys1 by (simp add: wellPlaced_def)
  have keys2: "fst ` set ?k2 = set (regions m)"
    by (auto simp: emptyKills_def image_iff)
  have c: "forEachE (killRequestStep name states) (map request (internalState m)) ?k2 =
      Inr (map (\<lambda>(r, i, q). (r, i, q @ map SpotInstanceRequestId
                        (filter (\<lambda>x. WorkerType x = name \<and> ''spotReq'' \<in> set states
                                      \<and> Region x = r) (map request (internalState m))))) ?k2)"
    using assms forEachE_killRequestStep [of ?k2 "map request (internalState m)" name states]
    unfolding keys2 by (simp add: wellPlaced_def list_all_iff)
  show ?thesis
    by (simp only: killsByName_def a b c sum.case)
       (simp add: emptyKills_def requestIdsIn_def comp_def)
qed

lemma killsOf_knownKeyPairs [simp]: "killsOf (m\<lparr>knownKeyPairs := x\<rparr>) name = killsOf m name"
  by (simp add: killsOf_def instanceIdsIn_def requestIdsIn_def)

lemma wellPlaced_knownKeyPairs [simp]: "wellPlaced (m\<lparr>knownKeyPairs := x\<rparr>) = wellPlaced m"
  by (simp add: wellPlaced_def)

lemma keyPairs_killCalls: "keyPairs (foldl perform c (killCalls ks)) = keyPairs c"
proof (rule keyPairs_no_effect)
  show "list_all (\<lambda>x. \<forall>r k. x \<noteq> ImportKeyPair r k \<and> x \<noteq> DeleteKeyPair r k) (killCalls ks)"
    by (auto simp: list_all_iff killCalls_def killCancelCalls_def split: if_splits)
qed

lemma killByName_resolves:
  assumes "failing c = []" and "wellPlaced m"
  shows "killByName m c name None = (Resolved, foldl perform c (killCalls (killsOf m name)))"
  using assms killsByName_wellPlaced [of m name defaultStates]
  by (simp add: killByName_def statesOrDefault_def performAll_def killsOf_def)

lemma terminate_in_killCalls:
  assumes "(r, i, q) \<in> set ks" and "i \<noteq> []"
  shows "TerminateInstances r i \<in> set (killCalls ks)"
proof -
  have "TerminateInstances r i \<in> set (killCancelCalls r i q)"
    using assms(2) by (simp add: killCancelCalls_def)
  with assms(1) show ?thesis by (force simp: killCalls_def)
qed

lemma cancel_in_killCalls:
  assumes "(r, i, q) \<in> set ks" and "q \<noteq> []"
  shows "CancelSpotInstanceRequests r q \<in> set (killCalls ks)"
proof -
  have "CancelSpotInstanceRequests r q \<in> set (killCancelCalls r i q)"
    using assms(2) by (simp add: killCancelCalls_def)
  with assms(1) show ?thesis by (force simp: killCalls_def)
qed

lemma killsOf_entry:
  "r \<in> set (regions m) \<Longrightarrow>
   (r, instanceIdsIn m name defaultStates r, requestIdsIn m name defaultStates r)
     \<in> set (killsOf m name)"
  by (auto simp: killsOf_def)

lemma rougeLoop_resolves:
  assumes "failing c = []" and "wellPlaced m" and "[] \<notin> set names"
  shows "\<exists>m' c'. rougeLoop names rejected m c = (if rejected then Rejected else Resolved, m', c')
      \<and> set (knownKeyPairs m') \<subseteq> set (knownKeyPairs m)
      \<and> set (keyPairs c') \<subseteq> set (keyPairs c)
      \<and> set (issued c) \<subseteq> set (issued c')
      \<and> (\<forall>n \<in> set names. n \<notin> set (knownKeyPairs m')
            \<and> (\<forall>r \<in> set (regions m). (r, keyPrefix m @ n) \<notin> set (keyPairs c'))
            \<and> set (killCalls (killsOf m n)) \<subseteq> set (issued c'))"
  using assms
proof (induction names arbitrary: rejected m c)
  case Nil
  then show ?case by simp
next
  case (Cons n ns)
  let ?m1 = "m\<lparr>knownKeyPairs := filter (\<lambda>k. k \<noteq> n) (knownKeyPairs m)\<rparr>"
  from Cons.prems have n: "n \<noteq> []" and ns: "[] \<notin> set ns" by auto
  from deleteKeyPair_resolves [OF Cons.prems(1) n, of m]
  obtain c1 where del: "deleteKeyPair m c n = (Resolved, ?m1, c1)"
    and up1: "failing c1 = []"
    and kp1: "set (keyPairs c1) \<subseteq> set (keyPairs c)"
    and gone1: "\<forall>region \<in> set (regions m). (region, keyPrefix m @ n) \<notin> set (keyPairs c1)"
    and log1: "\<exists>ys. issued c1 = issued c @ ys"
    by blast
  let ?c2 = "foldl perform c1 (killCalls (killsOf m n))"
  have wp1: "wellPlaced ?m1" using Cons.prems(2) by simp
  have kill: "killByName ?m1 c1 n None = (Resolved, ?c2)"
    using killByName_resolves [OF up1 wp1, of n] by simp
  have up2: "failing ?c2 = []" using up1 by simp
  have kp2: "keyPairs ?c2 = keyPairs c1" by (rule keyPairs_killCalls)
  have step: "rougeLoop (n # ns) rejected m c = rougeLoop ns rejected ?m1 ?c2"
    by (simp add: del kill)
  from Cons.IH [OF up2 wp1 ns, of rejected]
  obtain m' c' where
    run: "rougeLoop ns rejected ?m1 ?c2 = (if rejected then Rejected else Resolved, m', c')"
    and cache: "set (knownKeyPairs m') \<subseteq> set (knownKeyPairs ?m1)"
    and kp': "set (keyPairs c') \<subseteq> set (keyPairs ?c2)"
    and log': "set (issued ?c2) \<subseteq> set (issued c')"
    and rest: "\<forall>x \<in> set ns. x \<notin> set (knownKeyPairs m')
            \<and> (\<forall>r \<in> set (regions ?m1). (r, keyPrefix ?m1 @ x) \<notin> set (keyPairs c'))
            \<and> set (killCalls (killsOf ?m1 x)) \<subseteq> set (issued c')"
    by blast
  have a: "set (knownKeyPairs m') \<subseteq> set (knownKeyPairs m)" using cache by auto
  have b: "set (keyPairs c') \<subseteq> set (keyPairs c)" using kp' kp1 unfolding kp2 by blast
  have c: "set (issued c) \<subseteq> set (issued c')" using log' log1 by auto
  have d: "n \<notin> set (knownKeyPairs m')" using cache by auto
  have e: "\<forall>r \<in> set (regions m). (r, keyPrefix m @ n) \<notin> set (keyPairs c')"
    using gone1 kp' unfolding kp2 by blast
  have f: "set (killCalls (killsOf m n)) \<subseteq> set (issued c')" using log' by auto
  have g: "\<forall>x \<in> set ns. x \<notin> set (knownKeyPairs m')
            \<and> (\<forall>r \<in> set (regions m). (r, keyPrefix m @ x) \<notin> set (keyPairs c'))
            \<and> set (killCalls (killsOf m x)) \<subseteq> set (issued c')"
    using rest by simp
  show ?case
    unfolding step run using a b c d e f g by simp
qed

lemma set_foldl_pushIfNew: "set (foldl pushIfNew acc xs) = set acc \<union> set xs"
  by (induction xs arbitrary: acc) (auto simp: pushIfNew_def)

lemma set_knownWorkerTypes:
  "set (knownWorkerTypes m) =
     WorkerType ` set (instances (apiState m)) \<union> WorkerType ` set (requests (apiState m))
     \<union> (\<lambda>sr. WorkerType (request sr)) ` set (internalState m)"
  by (simp add: knownWorkerTypes_def set_foldl_pushIfNew)

text \<open>
  Claim C8, as stated, fails. \<open>deleteKeyPair\<close> asserts that the worker name is not
  empty, and the exception leaves the loop of \<open>rougeKiller\<close>. In a fleet where an
  instance with the bare key prefix as key name (worker type \<open>''\<close>) is seen before
  an instance of the unconfigured worker type \<open>legacy\<close>, \<open>rougeKiller\<close> with the
  empty configured set throws, issues no call and leaves the key pair of \<open>legacy\<close>
  in place.
\<close>

theorem rougeKiller_nameless_counterexample:
  "''legacy'' \<in> WorkerType ` set (instances (apiState namelessFleet))
   \<and> ''legacy'' \<notin> set ([] :: string list)
   \<and> wellPlaced namelessFleet \<and> live namelessFleet \<and> failing rogueCloud = []
   \<and> knownWorkerTypes namelessFleet = [[], ''legacy'']
   \<and> rougeKiller namelessFleet rogueCloud [] = (Threw AssertionError, namelessFleet, rogueCloud)
   \<and> issued rogueCloud = []
   \<and> (''us-west-2'', keyPrefix namelessFleet @ ''legacy'') \<in> set (keyPairs rogueCloud)"
  by (simp add: rougeKiller_def knownWorkerTypes_def pushIfNew_def deleteKeyPair_def
        wellPlaced_def live_def namelessFleet_def rogueCloud_def exManager_def exInstance_def
        noState_def)

text \<open>
  Claim C8, amended. Take a worker type seen in the state, among the instances, the
  open requests or the in-flight bids, that is not in the configured set, and let no
  worker type seen outside the configured set have the empty name. Let the fleet be
  as \<open>update\<close> leaves it, every resource in a region of the adapter and every
  instance running or pending, and let every call of the pass resolve. Then
  \<open>rougeKiller\<close> resolves, the worker type's key pair is gone from every region and
  from the cache, and the calls issued hold a \<open>terminateInstances\<close> call with each
  of its instances and a \<open>cancelSpotInstanceRequests\<close> call with each of its
  requests and in-flight bids, in the region of each. With the empty configured set
  this holds of every worker type seen.
\<close>

theorem rougeKiller_kills_rogue:
  assumes observed:
        "name \<in> WorkerType ` set (instances (apiState m))
                \<union> WorkerType ` set (requests (apiState m))
                \<union> (\<lambda>sr. WorkerType (request sr)) ` set (internalState m)"
      and rogue: "name \<notin> set configuredWorkers"
      and named: "[] \<notin> set (filter (\<lambda>name. name \<notin> set configuredWorkers) (knownWorkerTypes m))"
      and placed: "wellPlaced m"
      and alive: "live m"
      and up: "failing c = []"
  shows "\<exists>m' c'. rougeKiller m c configuredWorkers = (Resolved, m', c')
      \<and> name \<notin> set (knownKeyPairs m')
      \<and> (\<forall>region \<in> set (regions m). (region, keyPrefix m @ name) \<notin> set (keyPairs c'))
      \<and> (\<forall>i \<in> set (instances (apiState m)). WorkerType i = name \<longrightarrow>
            (\<exists>ids. TerminateInstances (Region i) ids \<in> set (issued c') \<and> InstanceId i \<in> set ids))
      \<and> (\<forall>r \<in> set (requests (apiState m)). WorkerType r = name \<longrightarrow>
            (\<exists>ids. CancelSpotInstanceRequests (Region r) ids \<in> set (issued c')
                   \<and> SpotInstanceRequestId r \<in> set ids))
      \<and> (\<forall>sr \<in> set (internalState m). WorkerType (request sr) = name \<longrightarrow>
            (\<exists>ids. CancelSpotInstanceRequests (Region (request sr)) ids \<in> set (issued c')
                   \<and> SpotInstanceRequestId (request sr) \<in> set ids))"
proof -
  let ?names = "filter (\<lambda>name. name \<notin> set configuredWorkers) (knownWorkerTypes m)"
  have mem: "name \<in> set ?names"
    using observed rogue by (simp add: set_knownWorkerTypes)
  from rougeLoop_resolves [OF up placed named, of False]
  obtain m' c' where run: "rougeKiller m c configuredWorkers = (Resolved, m', c')"
    and all: "\<forall>n \<in> set ?names. n \<notin> set (knownKeyPairs m')
            \<and> (\<forall>r \<in> set (regions m). (r, keyPrefix m @ n) \<notin> set (keyPairs c'))
            \<and> set (killCalls (killsOf m n)) \<subseteq> set (issued c')"
    unfolding rougeKiller_def by auto
  from all mem have cache: "name \<notin> set (knownKeyPairs m')"
    and keys: "\<forall>r \<in> set (regions m). (r, keyPrefix m @ name) \<notin> set (keyPairs c')"
    and calls: "set (killCalls (killsOf m name)) \<subseteq> set (issued c')"
    by blast+
  have inst: "\<exists>ids. TerminateInstances (Region i) ids \<in> set (issued c') \<and> InstanceId i \<in> set ids"
    if i: "i \<in> set (instances (apiState m))" and w: "WorkerType i = name" for i
  proof -
    let ?ids = "instanceIdsIn m name defaultStates (Region i)"
    have region: "Region i \<in> set (regions m)"
      using placed i by (simp add: wellPlaced_def list_all_iff)
    have "State_Name i \<in> set defaultStates"
      using alive i by (auto simp: live_def list_all_iff defaultStates_def)
    with i w have ident: "InstanceId i \<in> set ?ids"
      by (auto simp: instanceIdsIn_def)
    then have "?ids \<noteq> []" by auto
    from terminate_in_killCalls [OF killsOf_entry [OF region] this] calls ident
    show ?thesis by blast
  qed
  have spot: "''spotReq'' \<in> set defaultStates" by (simp add: defaultStates_def)
  have req: "\<exists>ids. CancelSpotInstanceRequests (Region r) ids \<in> set (issued c')
                   \<and> SpotInstanceRequestId r \<in> set ids"
    if r: "r \<in> set (requests (apiState m))" and w: "WorkerType r = name" for r
  proof -
    let ?ids = "requestIdsIn m name defaultStates (Region r)"
    have region: "Region r \<in> set (regions m)"
      using placed r by (simp add: wellPlaced_def list_all_iff)
    from r w spot have ident: "SpotInstanceRequestId r \<in> set ?ids"
      by (auto simp: requestIdsIn_def)
    then have "?ids \<noteq> []" by auto
    from cancel_in_killCalls [OF killsOf_entry [OF region] this] calls ident
    show ?thesis by blast
  qed
  have flight: "\<exists>ids. CancelSpotInstanceRequests (Region (request sr)) ids \<in> set (issued c')
                   \<and> SpotInstanceRequestId (request sr) \<in> set ids"
    if sr: "sr \<in> set (internalState m)" and w: "WorkerType (request sr) = name" for sr
  proof -
    let ?ids = "requestIdsIn m name defaultStates (Region (request sr))"
    have region: "Region (request sr) \<in> set (regions m)"
      using placed sr by (simp add: wellPlaced_def list_all_iff)
    from sr w spot have ident: "SpotInstanceRequestId (request sr) \<in> set ?ids"
      by (auto simp: requestIdsIn_def)
    then have "?ids \<noteq> []" by auto
    from cancel_in_killCalls [OF killsOf_entry [OF region] this] calls ident
    show ?thesis by blast
  qed
  from run cache keys inst req flight show ?thesis by blast
qed

text \<open>The example pass in full: what \<open>rougeKiller\<close> leaves and what it issues.\<close>

lemma rougeKiller_rogueFleet:
  "rougeKiller rogueFleet rogueCloud [''modern''] =
     (Resolved, rogueFleet\<lparr>knownKeyPairs := [''modern'']\<rparr>,
      \<lparr>keyPairs = [(''us-west-2'', ''managed:modern'')], failing = [],
       issued = [DescribeKeyPairs [''us-west-2'', ''us-east-1''] ''managed:legacy'',
                 DeleteKeyPair ''us-west-2'' ''managed:legacy'',
                 DeleteKeyPair ''us-east-1'' ''managed:legacy'',
                 TerminateInstances ''us-west-2'' [''i-1''],
                 CancelSpotInstanceRequests ''us-west-2'' [''sir-2''],
                 CancelSpotInstanceRequests ''us-east-1'' [''sir-1'']]\<rparr>)"
  by (simp add: rougeKiller_def knownWorkerTypes_def pushIfNew_def deleteKeyPair_def
        perform_def rejects_def performAll_def killByName_def killsByName_def killCalls_def
        killCancelCalls_def killInstanceStep_def killRequestStep_def pushInstanceId_def
        pushRequestId_def emptyKills_def statesOrDefault_def defaultStates_def Let_def rogueFleet_def rogueCloud_def exManager_def exInstance_def
        exRequest_def exBid_def noState_def)

theorem rougeKiller_kills_rogue_witness:
  "''legacy'' \<in> WorkerType ` set (instances (apiState rogueFleet))
                \<union> WorkerType ` set (requests (apiState rogueFleet))
                \<union> (\<lambda>sr. WorkerType (request sr)) ` set (internalState rogueFleet)
   \<and> ''legacy'' \<notin> set [''modern'']
   \<and> [] \<notin> set (filter (\<lambda>name. name \<notin> set [''modern'']) (knownWorkerTypes rogueFleet))
   \<and> wellPlaced rogueFleet
   \<and> live rogueFleet
   \<and> failing rogueCloud = []
   \<and> (\<exists>m' c'. rougeKiller rogueFleet rogueCloud [''modern''] = (Resolved, m', c')
      \<and> ''legacy'' \<notin> set (knownKeyPairs m')
      \<and> (\<forall>region \<in> set (regions rogueFleet).
            (region, keyPrefix rogueFleet @ ''legacy'') \<notin> set (keyPairs c'))
      \<and> (\<forall>i \<in> set (instances (apiState rogueFleet)). WorkerType i = ''legacy'' \<longrightarrow>
            (\<exists>ids. TerminateInstances (Region i) ids \<in> set (issued c') \<and> InstanceId i \<in> set ids))
      \<and> (\<forall>r \<in> set (requests (apiState rogueFleet)). WorkerType r = ''legacy'' \<longrightarrow>
            (\<exists>ids. CancelSpotInstanceRequests (Region r) ids \<in> set (issued c')
                   \<and> SpotInstanceRequestId r \<in> set ids))
      \<and> (\<forall>sr \<in> set (internalState rogueFleet). WorkerType (request sr) = ''legacy'' \<longrightarrow>
            (\<exists>ids. CancelSpotInstanceRequests (Region (request sr)) ids \<in> set (issued c')
                   \<and> SpotInstanceRequestId (request sr) \<in> set ids)))"
proof -
  have h1: "''legacy'' \<in> WorkerType ` set (instances (apiState rogueFleet))
                \<union> WorkerType ` set (requests (apiState rogueFleet))
                \<union> (\<lambda>sr. WorkerType (request sr)) ` set (internalState rogueFleet)"
    by (simp add: rogueFleet_def exManager_def exInstance_def)
  have h2: "''legacy'' \<notin> set [''modern'']" by simp
  have h3: "[] \<notin> set (filter (\<lambda>name. name \<notin> set [''modern'']) (knownWorkerTypes rogueFleet))"
    by (simp add: set_knownWorkerTypes rogueFleet_def exManager_def exInstance_def
          exRequest_def exBid_def)
  have h4: "wellPlaced rogueFleet"
    by (simp add: wellPlaced_def rogueFleet_def exManager_def exInstance_def exRequest_def
          exBid_def)
  have h5: "live rogueFleet"
    by (simp add: live_def rogueFleet_def exManager_def exInstance_def)
  have h6: "failing rogueCloud = []" by (simp add: rogueCloud_def)
  note concl = rougeKiller_kills_rogue [OF h1 h2 h3 h4 h5 h6]
  show ?thesis
    by (intro conjI) (rule h1 h2 h3 h4 h5 h6 concl)+
qed

end
